theory Spec2Isabelle
  imports Main "HOL-Library.AList"
begin

section \<open>The DROP / DETACH / TRUNCATE interpreter (InterpreterDropQuery.cpp)\<close>

text \<open>
  A shallow embedding of \<^verbatim>\<open>src/Interpreters/InterpreterDropQuery.cpp\<close>. The
  interpreter's methods are functions on an explicit world (the database catalog, the
  session's temporary tables and a log of the calls made on collaborators); an
  exception is the left summand of the result, and the world at the moment of the throw
  is returned with it, so that partial progress stays visible.
\<close>

subsection \<open>The statement (ASTDropQuery) and access rights\<close>

datatype Kind = Drop | Detach | Truncate

record ASTDropQuery =
  kind :: Kind
  if_exists :: bool
  temporary :: bool
  is_dictionary :: bool
  is_view :: bool
  no_delay :: bool
  no_ddl_lock :: bool
  database :: string
  table :: string
  cluster :: string

datatype AccessType = DROP_DATABASE | DROP_DICTIONARY | DROP_TABLE | DROP_VIEW | TRUNCATE

text \<open>
  An AccessRightsElement: a set of access flags (\<^verbatim>\<open>DROP_TABLE | DROP_VIEW\<close> is the
  union of two flags) on a database, and on one of its objects when \<open>are_table\<close> holds
  one (the two-argument constructor leaves the table unset).
\<close>

record AccessRightsElement =
  are_flags :: "AccessType set"
  are_database :: string
  are_table :: "string option"

definition element_on_database :: "AccessType set \<Rightarrow> string \<Rightarrow> AccessRightsElement" where
  "element_on_database fl d = \<lparr>are_flags = fl, are_database = d, are_table = None\<rparr>"

definition element_on_table :: "AccessType set \<Rightarrow> string \<Rightarrow> string \<Rightarrow> AccessRightsElement" where
  "element_on_table fl d t = \<lparr>are_flags = fl, are_database = d, are_table = Some t\<rparr>"

text \<open>
  \<^verbatim>\<open>getRequiredAccessForDDLOnCluster\<close> (lines 300-331): the list starts empty and
  at most one element is emplaced. An \<^verbatim>\<open>if / else if\<close> chain over the kind with no
  final \<^verbatim>\<open>else\<close> leaves the list empty for the kinds it does not name.
\<close>

definition getRequiredAccessForDDLOnCluster :: "ASTDropQuery \<Rightarrow> AccessRightsElement list" where
  "getRequiredAccessForDDLOnCluster q =
    (if table q = [] then
       (if kind q = Detach then [element_on_database {DROP_DATABASE} (database q)]
        else if kind q = Drop then [element_on_database {DROP_DATABASE} (database q)]
        else [])
     else if is_dictionary q then
       (if kind q = Detach then [element_on_table {DROP_DICTIONARY} (database q) (table q)]
        else if kind q = Drop then [element_on_table {DROP_DICTIONARY} (database q) (table q)]
        else [])
     else if \<not> temporary q then
       (if kind q = Drop then
          [element_on_table {DROP_TABLE, DROP_VIEW} (database q) (table q)]
        else if kind q = Truncate then
          [element_on_table {TRUNCATE} (database q) (table q)]
        else if kind q = Detach then
          [element_on_table {DROP_TABLE, DROP_VIEW} (database q) (table q)]
        else [])
     else [])"

subsection \<open>The collaborators: tables, databases, context, catalog\<close>

text \<open>
  Modelled from the spec: the classes behind \<^verbatim>\<open>IStorage\<close>,
  \<^verbatim>\<open>IDatabase\<close>, \<^verbatim>\<open>Context\<close> and \<^verbatim>\<open>DatabaseCatalog\<close> are missing
  from the source, which only calls them. Each is a record of what those calls read: a
  table is a view or not, has a persistent id, may veto its drop and may refuse its lock;
  a database has an engine name, a dynamic type that is \<^verbatim>\<open>DatabaseAtomic\<close> or not,
  its tables and dictionaries by name, and the log a proposal is appended to; the context
  has the current database, the kind of the query (a replay of the log or not), the
  setting read at line 45 and the access rights of the principal. The catalog maps names
  to databases, the session registry maps names to temporary tables, and every call on a
  collaborator is written to the world's \<open>trace\<close>. The failures of the collaborators
  are named after the spec's taxonomy (PermissionDenied, PreconditionViolation, Timeout);
  the other errors are the codes of the source.
\<close>

type_synonym UUID = nat

definition UUIDHelpers_Nil :: UUID where
  "UUIDHelpers_Nil = 0"

record storage =
  isView :: bool
  storage_uuid :: UUID
  can_be_dropped :: bool
  lock_available :: bool
  stored_rows :: nat

datatype QueryKind = NO_QUERY | INITIAL_QUERY | SECONDARY_QUERY | REPLICATED_LOG_QUERY

record db =
  getEngineName :: string
  is_DatabaseAtomic :: bool
  shouldBeEmptyOnDetach :: bool
  can_be_detached :: bool
  db_tables :: "(string \<times> storage) list"
  db_dictionaries :: "string list"
  replicated_log :: "ASTDropQuery list"

record Context =
  getCurrentDatabase :: string
  query_kind :: QueryKind
  database_atomic_wait_for_drop_and_detach_synchronously :: bool
  granted :: "AccessType \<Rightarrow> string \<Rightarrow> string \<Rightarrow> bool"

datatype error =
    LOGICAL_ERROR
  | SYNTAX_ERROR
  | UNKNOWN_TABLE
  | UNKNOWN_DICTIONARY
  | UNKNOWN_DATABASE
  | PermissionDenied
  | PreconditionViolation
  | Timeout

datatype BlockIO = EmptyBlockIO | Feedback | OnClusterBlockIO

datatype event =
    GetDDLGuard string string
  | ReleaseDDLGuard string string
  | GetExclusiveDDLGuardForDatabase string
  | ReleaseExclusiveDDLGuardForDatabase string
  | CheckAccess AccessType string string
  | Shutdown string string
  | LockExclusively string string
  | CheckTableCanBeDropped string string
  | Propose string ASTDropQuery
  | DetachTable string string
  | TruncateTable string string
  | DropTable string string bool
  | DetachDictionary string string
  | RemoveDictionary string string
  | WaitTableFinallyDropped UUID
  | WaitDetachedTableNotInUse UUID
  | AssertCanBeDetached string
  | DetachDatabase string bool bool
  | RemoveExternalTable string
  | DropStorage string
  | EnterExecuteToTable ASTDropQuery
  | EnterExecuteToDictionary string string Kind bool bool bool
  | ExecuteDDLQueryOnCluster ASTDropQuery "AccessRightsElement list"

record world =
  databases :: "string \<rightharpoonup> db"
  external_tables :: "string \<rightharpoonup> storage"
  trace :: "event list"

type_synonym result = "(error + BlockIO) \<times> world"

definition emit :: "event \<Rightarrow> world \<Rightarrow> world" where
  "emit e w = w\<lparr>trace := trace w @ [e]\<rparr>"


text \<open>
  Modelled from the spec: \<^verbatim>\<open>Context::checkAccess\<close> (the Access Checker) is missing
  from the source; the spec gives its contract: the check of a requirement either passes
  or fails with PermissionDenied. The context's \<open>granted\<close> says which.
\<close>

definition checkAccess ::
  "Context \<Rightarrow> AccessType \<Rightarrow> string \<Rightarrow> string \<Rightarrow> world \<Rightarrow> error option \<times> world" where
  "checkAccess ctx a d t w =
     ((if granted ctx a d t then None else Some PermissionDenied), emit (CheckAccess a d t) w)"

text \<open>
  Modelled from the spec: \<^verbatim>\<open>IStorage::lockExclusively\<close> is missing from the source;
  by the spec the exclusive object lock is either obtained or the call fails with Timeout.
\<close>

definition lockExclusively :: "string \<Rightarrow> string \<Rightarrow> storage \<Rightarrow> world \<Rightarrow> error option \<times> world" where
  "lockExclusively d t s w =
     ((if lock_available s then None else Some Timeout), emit (LockExclusively d t) w)"

text \<open>
  Modelled from the spec: \<^verbatim>\<open>IStorage::checkTableCanBeDropped\<close> is missing from the
  source; by the spec it is a veto hook whose failure is a PreconditionViolation.
\<close>

definition checkTableCanBeDropped ::
  "string \<Rightarrow> string \<Rightarrow> storage \<Rightarrow> world \<Rightarrow> error option \<times> world" where
  "checkTableCanBeDropped d t s w =
     ((if can_be_dropped s then None else Some PreconditionViolation),
      emit (CheckTableCanBeDropped d t) w)"

text \<open>
  Modelled from the spec: \<^verbatim>\<open>DatabaseAtomic::assertCanBeDetached\<close> is missing from
  the source; by the spec it is a precondition hook that may veto a Detach with a
  PreconditionViolation.
\<close>

definition assertCanBeDetached :: "string \<Rightarrow> db \<Rightarrow> world \<Rightarrow> error option \<times> world" where
  "assertCanBeDetached d x w =
     ((if can_be_detached x then None else Some PreconditionViolation),
      emit (AssertCanBeDetached d) w)"

text \<open>
  A database object is shared by pointer in the source; here it is addressed by its name
  in the catalog, and a call on the object updates the catalog's entry.
\<close>

definition update_db :: "string \<Rightarrow> (db \<Rightarrow> db) \<Rightarrow> world \<Rightarrow> world" where
  "update_db d f w =
     (case databases w d of
        None \<Rightarrow> w
      | Some x \<Rightarrow> w\<lparr>databases := (databases w)(d \<mapsto> f x)\<rparr>)"

text \<open>
  Modelled from the spec: the lifecycle hooks of \<^verbatim>\<open>IDatabase\<close> and
  \<^verbatim>\<open>IStorage\<close> are missing from the source. By the spec, Detach and Drop remove the
  name mapping from the catalog, Truncate empties the stored data and leaves metadata and
  identifier untouched, and a proposal appends a log entry instead of mutating locally.
\<close>

definition detachTable :: "string \<Rightarrow> string \<Rightarrow> world \<Rightarrow> world" where
  "detachTable d t w =
     emit (DetachTable d t) (update_db d (\<lambda>x. x\<lparr>db_tables := AList.delete t (db_tables x)\<rparr>) w)"

definition dropTable :: "string \<Rightarrow> string \<Rightarrow> bool \<Rightarrow> world \<Rightarrow> world" where
  "dropTable d t nd w =
     emit (DropTable d t nd) (update_db d (\<lambda>x. x\<lparr>db_tables := AList.delete t (db_tables x)\<rparr>) w)"

definition truncate_rows :: "string \<Rightarrow> (string \<times> storage) list \<Rightarrow> (string \<times> storage) list" where
  "truncate_rows t ts = map (\<lambda>(n, s). if n = t then (n, s\<lparr>stored_rows := 0\<rparr>) else (n, s)) ts"

definition truncate :: "string \<Rightarrow> string \<Rightarrow> world \<Rightarrow> world" where
  "truncate d t w =
     emit (TruncateTable d t) (update_db d (\<lambda>x. x\<lparr>db_tables := truncate_rows t (db_tables x)\<rparr>) w)"

definition propose :: "string \<Rightarrow> ASTDropQuery \<Rightarrow> world \<Rightarrow> world" where
  "propose d q w =
     emit (Propose d q) (update_db d (\<lambda>x. x\<lparr>replicated_log := replicated_log x @ [q]\<rparr>) w)"

definition detachDictionary :: "string \<Rightarrow> string \<Rightarrow> world \<Rightarrow> world" where
  "detachDictionary d n w =
     emit (DetachDictionary d n)
       (update_db d (\<lambda>x. x\<lparr>db_dictionaries := removeAll n (db_dictionaries x)\<rparr>) w)"

definition removeDictionary :: "string \<Rightarrow> string \<Rightarrow> world \<Rightarrow> world" where
  "removeDictionary d n w =
     emit (RemoveDictionary d n)
       (update_db d (\<lambda>x. x\<lparr>db_dictionaries := removeAll n (db_dictionaries x)\<rparr>) w)"

text \<open>
  Modelled from the spec: \<^verbatim>\<open>DatabaseCatalog::detachDatabase\<close> is missing from the
  source; by the spec it detaches (and, for a Drop, forgets) the database entry.
\<close>

definition detachDatabase :: "string \<Rightarrow> bool \<Rightarrow> bool \<Rightarrow> world \<Rightarrow> world" where
  "detachDatabase d drop_it check_empty w =
     emit (DetachDatabase d drop_it check_empty) (w\<lparr>databases := (databases w)(d := None)\<rparr>)"

text \<open>
  Modelled from the spec: the resolution functions of \<^verbatim>\<open>DatabaseCatalog\<close> and
  the lookups of \<^verbatim>\<open>IDatabase\<close> (\<^verbatim>\<open>tryGetTableUUID\<close>,
  \<^verbatim>\<open>isDictionaryExist\<close>) are missing from the source; by the spec
  \<^verbatim>\<open>resolve(identifier, allowMissing)\<close> gives the object or Missing, and a
  missing target that is not allowed to be missing fails NotFound (here with the code of
  what is missing). A lookup that allows a missing table still gives the database when
  only the table is missing.
\<close>

definition catalog_tryGetDatabase :: "world \<Rightarrow> string \<Rightarrow> db option" where
  "catalog_tryGetDatabase w d = databases w d"

definition catalog_getDatabase :: "world \<Rightarrow> string \<Rightarrow> error + db" where
  "catalog_getDatabase w d =
     (case databases w d of None \<Rightarrow> Inl UNKNOWN_DATABASE | Some x \<Rightarrow> Inr x)"

definition tryGetDatabaseAndTable :: "world \<Rightarrow> string \<Rightarrow> string \<Rightarrow> db option \<times> storage option" where
  "tryGetDatabaseAndTable w d t =
     (case databases w d of
        None \<Rightarrow> (None, None)
      | Some x \<Rightarrow> (Some x, map_of (db_tables x) t))"

definition getDatabaseAndTable ::
  "world \<Rightarrow> string \<Rightarrow> string \<Rightarrow> error + (db option \<times> storage option)" where
  "getDatabaseAndTable w d t =
     (case databases w d of
        None \<Rightarrow> Inl UNKNOWN_DATABASE
      | Some x \<Rightarrow>
          (case map_of (db_tables x) t of
             None \<Rightarrow> Inl UNKNOWN_TABLE
           | Some s \<Rightarrow> Inr (Some x, Some s)))"

definition tryGetTableUUID :: "db \<Rightarrow> string \<Rightarrow> UUID" where
  "tryGetTableUUID x t =
     (case map_of (db_tables x) t of None \<Rightarrow> UUIDHelpers_Nil | Some s \<Rightarrow> storage_uuid s)"

definition isDictionaryExist :: "db \<Rightarrow> string \<Rightarrow> bool" where
  "isDictionaryExist x n = (n \<in> set (db_dictionaries x))"

text \<open>
  Modelled from the spec: the iterators of \<^verbatim>\<open>IDatabase\<close> are missing from the
  source; they enumerate all dictionaries, or all tables, of the database: the
  registries are keyed by name, so each name is visited once.
\<close>

definition getDictionariesIterator :: "db \<Rightarrow> string list" where
  "getDictionariesIterator x = remdups (db_dictionaries x)"

definition getTablesIterator :: "db \<Rightarrow> string list" where
  "getTablesIterator x = remdups (map fst (db_tables x))"

text \<open>
  Modelled from the spec: name resolution of \<^verbatim>\<open>Context\<close> is missing from the
  source. An empty database name stands for the current database; a temporary table is
  resolved against the session-scoped registry, by its name alone.
\<close>

definition resolveDatabase :: "Context \<Rightarrow> string \<Rightarrow> string" where
  "resolveDatabase ctx d = (if d = [] then getCurrentDatabase ctx else d)"

definition tryResolveExternal :: "world \<Rightarrow> string \<Rightarrow> string \<Rightarrow> storage option" where
  "tryResolveExternal w d t = (if d = [] then external_tables w t else None)"

subsection \<open>The interpreter\<close>

text \<open>
  The static helper \<^verbatim>\<open>tryGetDatabase\<close> (lines 30-33).
\<close>

definition tryGetDatabase :: "world \<Rightarrow> string \<Rightarrow> bool \<Rightarrow> error + db option" where
  "tryGetDatabase w database_name if_ex =
     (if if_ex then Inr (catalog_tryGetDatabase w database_name)
      else (case catalog_getDatabase w database_name of Inl e \<Rightarrow> Inl e | Inr x \<Rightarrow> Inr (Some x)))"

text \<open>
  \<^verbatim>\<open>executeToTemporaryTable\<close> (lines 209-240). A temporary table has no database
  name; its events carry the empty one.
\<close>

definition executeToTemporaryTable :: "string \<Rightarrow> Kind \<Rightarrow> world \<Rightarrow> result" where
  "executeToTemporaryTable table_name k w =
     (if k = Detach then (Inl SYNTAX_ERROR, w)
      else
        (case tryResolveExternal w [] table_name of
           None \<Rightarrow> (Inr EmptyBlockIO, w)
         | Some s \<Rightarrow>
             if k = Truncate then
               (case lockExclusively [] table_name s w of
                  (Some e, w1) \<Rightarrow> (Inl e, w1)
                | (None, w1) \<Rightarrow>
                    (Inr EmptyBlockIO,
                     emit (TruncateTable [] table_name)
                       (w1\<lparr>external_tables :=
                             (external_tables w1)(table_name \<mapsto> s\<lparr>stored_rows := 0\<rparr>)\<rparr>)))
             else
               (let w1 = emit (RemoveExternalTable table_name)
                           (w\<lparr>external_tables := (external_tables w)(table_name := None)\<rparr>);
                    w2 = emit (Shutdown [] table_name) w1
                in case lockExclusively [] table_name s w2 of
                     (Some e, w3) \<Rightarrow> (Inl e, w3)
                   | (None, w3) \<Rightarrow> (Inr EmptyBlockIO, emit (DropStorage table_name) w3))))"


text \<open>
  \<^verbatim>\<open>executeToTable\<close>, the dispatch on the kind (lines 96-138), for a table \<open>s\<close>
  resolved in the database \<open>x\<close> named \<open>d\<close>. \<open>query_ptr\<close> is the interpreter's
  member, the statement the interpreter was built for; \<open>query\<close> is the argument, which
  differs from it in the recursive calls of \<^verbatim>\<open>executeToDatabase\<close>.
\<close>

definition replicated_redirect :: "Context \<Rightarrow> db \<Rightarrow> bool" where
  "replicated_redirect ctx x =
     (getEngineName x = ''Replicated'' \<and> query_kind ctx \<noteq> REPLICATED_LOG_QUERY)"

definition lock_unless_self_synchronizing ::
  "string \<Rightarrow> string \<Rightarrow> db \<Rightarrow> storage \<Rightarrow> world \<Rightarrow> error option \<times> world" where
  "lock_unless_self_synchronizing d t x s w =
     (if getEngineName x \<noteq> ''Atomic'' \<and> getEngineName x \<noteq> ''Replicated''
      then lockExclusively d t s w else (None, w))"

definition table_detach ::
  "Context \<Rightarrow> ASTDropQuery \<Rightarrow> string \<Rightarrow> string \<Rightarrow> db \<Rightarrow> storage \<Rightarrow> world \<Rightarrow> error option \<times> world" where
  "table_detach ctx query_ptr d t x s w =
     (case checkAccess ctx (if isView s then DROP_VIEW else DROP_TABLE) d t w of
        (Some e, w1) \<Rightarrow> (Some e, w1)
      | (None, w1) \<Rightarrow>
          (case lock_unless_self_synchronizing d t x s (emit (Shutdown d t) w1) of
             (Some e, w2) \<Rightarrow> (Some e, w2)
           | (None, w2) \<Rightarrow>
               if replicated_redirect ctx x then (None, propose d query_ptr w2)
               else (None, detachTable d t w2)))"

definition table_truncate ::
  "Context \<Rightarrow> ASTDropQuery \<Rightarrow> string \<Rightarrow> string \<Rightarrow> db \<Rightarrow> storage \<Rightarrow> world \<Rightarrow> error option \<times> world" where
  "table_truncate ctx query_ptr d t x s w =
     (case checkAccess ctx TRUNCATE d t w of
        (Some e, w1) \<Rightarrow> (Some e, w1)
      | (None, w1) \<Rightarrow>
          (case checkTableCanBeDropped d t s w1 of
             (Some e, w2) \<Rightarrow> (Some e, w2)
           | (None, w2) \<Rightarrow>
               (case lockExclusively d t s w2 of
                  (Some e, w3) \<Rightarrow> (Some e, w3)
                | (None, w3) \<Rightarrow>
                    if replicated_redirect ctx x then (None, propose d query_ptr w3)
                    else (None, truncate d t w3))))"

definition table_drop ::
  "Context \<Rightarrow> ASTDropQuery \<Rightarrow> ASTDropQuery \<Rightarrow> string \<Rightarrow> string \<Rightarrow> db \<Rightarrow> storage \<Rightarrow> world
     \<Rightarrow> error option \<times> world" where
  "table_drop ctx query_ptr query d t x s w =
     (case checkAccess ctx (if isView s then DROP_VIEW else DROP_TABLE) d t w of
        (Some e, w1) \<Rightarrow> (Some e, w1)
      | (None, w1) \<Rightarrow>
          (case checkTableCanBeDropped d t s w1 of
             (Some e, w2) \<Rightarrow> (Some e, w2)
           | (None, w2) \<Rightarrow>
               (case lock_unless_self_synchronizing d t x s (emit (Shutdown d t) w2) of
                  (Some e, w3) \<Rightarrow> (Some e, w3)
                | (None, w3) \<Rightarrow>
                    if table query_ptr \<noteq> [] \<and> replicated_redirect ctx x
                    then (None, propose d query_ptr w3)
                    else (None, dropTable d t (no_delay query) w3))))"

definition table_dispatch ::
  "Context \<Rightarrow> ASTDropQuery \<Rightarrow> ASTDropQuery \<Rightarrow> string \<Rightarrow> string \<Rightarrow> db \<Rightarrow> storage \<Rightarrow> world
     \<Rightarrow> error option \<times> world" where
  "table_dispatch ctx query_ptr query d t x s w =
     (if kind query = Detach then table_detach ctx query_ptr d t x s w
      else if kind query = Truncate then table_truncate ctx query_ptr d t x s w
      else table_drop ctx query_ptr query d t x s w)"

text \<open>
  The end of \<^verbatim>\<open>executeToTable\<close> (lines 143-160), entered once the guard is
  released: the optional waits on the captured uuid, and the answer.
\<close>

definition table_wait :: "ASTDropQuery \<Rightarrow> db option \<Rightarrow> UUID \<Rightarrow> world \<Rightarrow> world" where
  "table_wait query database_ptr uuid w =
     (if no_delay query then
        (if kind query = Drop then emit (WaitTableFinallyDropped uuid) w
         else if kind query = Detach then
           (case database_ptr of
              Some x \<Rightarrow> if is_DatabaseAtomic x then emit (WaitDetachedTableNotInUse uuid) w else w
            | None \<Rightarrow> w)
         else w)
      else w)"

definition table_answer :: "Context \<Rightarrow> db option \<Rightarrow> BlockIO" where
  "table_answer ctx database_ptr =
     (case database_ptr of
        Some x \<Rightarrow> if replicated_redirect ctx x then Feedback else EmptyBlockIO
      | None \<Rightarrow> EmptyBlockIO)"

definition release_ddl_guard :: "bool \<Rightarrow> string \<Rightarrow> string \<Rightarrow> world \<Rightarrow> world" where
  "release_ddl_guard no_lock d t w = (if \<not> no_lock then emit (ReleaseDDLGuard d t) w else w)"

definition get_ddl_guard :: "bool \<Rightarrow> string \<Rightarrow> string \<Rightarrow> world \<Rightarrow> world" where
  "get_ddl_guard no_lock d t w = (if \<not> no_lock then emit (GetDDLGuard d t) w else w)"

text \<open>
  \<^verbatim>\<open>executeToTable\<close> from the acquisition of the guard (lines 82-161), in the
  database named \<open>d\<close>. The guard is a scoped object: a throw releases it as well.
\<close>

definition executeToTable_in ::
  "Context \<Rightarrow> ASTDropQuery \<Rightarrow> ASTDropQuery \<Rightarrow> string \<Rightarrow> world \<Rightarrow> result" where
  "executeToTable_in ctx query_ptr query d w =
     (let t = table query;
          w1 = get_ddl_guard (no_ddl_lock query) d t w;
          release = release_ddl_guard (no_ddl_lock query) d t
      in case (if if_exists query then Inr (tryGetDatabaseAndTable w1 d t)
               else getDatabaseAndTable w1 d t) of
           Inl e \<Rightarrow> (Inl e, release w1)
         | Inr (Some x, Some s) \<Rightarrow>
             if is_view query_ptr \<and> \<not> isView s then (Inl LOGICAL_ERROR, release w1)
             else
               (let uuid = tryGetTableUUID x t
                in case table_dispatch ctx query_ptr query d t x s w1 of
                     (Some e, w2) \<Rightarrow> (Inl e, release w2)
                   | (None, w2) \<Rightarrow>
                       (Inr (table_answer ctx (Some x)),
                        table_wait query (Some x) uuid (release w2)))
         | Inr (database_ptr, _) \<Rightarrow>
             (Inr (table_answer ctx database_ptr),
              table_wait query database_ptr UUIDHelpers_Nil (release w1)))"

text \<open>
  The two tests at the head of \<^verbatim>\<open>executeToTable\<close> (lines 66-72): whether the
  statement is handed to the temporary-table handler, and the database the table is looked
  up in otherwise.
\<close>

definition resolves_as_temporary :: "world \<Rightarrow> ASTDropQuery \<Rightarrow> bool" where
  "resolves_as_temporary w q =
     ((temporary q \<or> database q = []) \<and> tryResolveExternal w (database q) (table q) \<noteq> None)"

definition table_database_name :: "Context \<Rightarrow> ASTDropQuery \<Rightarrow> string" where
  "table_database_name ctx q =
     (if temporary q \<or> database q = [] then getCurrentDatabase ctx else database q)"

text \<open>
  \<^verbatim>\<open>executeToTable\<close> (lines 62-161).
\<close>

definition executeToTable :: "Context \<Rightarrow> ASTDropQuery \<Rightarrow> ASTDropQuery \<Rightarrow> world \<Rightarrow> result" where
  "executeToTable ctx query_ptr query w0 =
     (let w = emit (EnterExecuteToTable query) w0
      in if resolves_as_temporary w query
         then executeToTemporaryTable (table query) (kind query) w
         else if temporary query then
           (if if_exists query then (Inr EmptyBlockIO, w) else (Inl UNKNOWN_TABLE, w))
         else executeToTable_in ctx query_ptr query (table_database_name ctx query) w)"

text \<open>
  \<^verbatim>\<open>executeToDictionary\<close> (lines 164-207).
\<close>

definition executeToDictionary ::
  "Context \<Rightarrow> string \<Rightarrow> string \<Rightarrow> Kind \<Rightarrow> bool \<Rightarrow> bool \<Rightarrow> bool \<Rightarrow> world \<Rightarrow> result" where
  "executeToDictionary ctx database_name' dictionary_name k if_ex is_temporary no_lock w0 =
     (let w = emit (EnterExecuteToDictionary database_name' dictionary_name k if_ex is_temporary no_lock) w0
      in if is_temporary then (Inl SYNTAX_ERROR, w)
         else
           (let d = resolveDatabase ctx database_name';
                w1 = get_ddl_guard no_lock d dictionary_name w;
                release = release_ddl_guard no_lock d dictionary_name
            in case tryGetDatabase w1 d if_ex of
                 Inl e \<Rightarrow> (Inl e, release w1)
               | Inr database_ptr \<Rightarrow>
                   if (case database_ptr of None \<Rightarrow> True
                       | Some x \<Rightarrow> \<not> isDictionaryExist x dictionary_name)
                   then (if \<not> if_ex then (Inl UNKNOWN_DICTIONARY, release w1)
                         else (Inr EmptyBlockIO, release w1))
                   else if k = Detach then
                     (case checkAccess ctx DROP_DICTIONARY d dictionary_name w1 of
                        (Some e, w2) \<Rightarrow> (Inl e, release w2)
                      | (None, w2) \<Rightarrow>
                          (Inr EmptyBlockIO, release (detachDictionary d dictionary_name w2)))
                   else if k = Truncate then (Inl SYNTAX_ERROR, release w1)
                   else
                     (case checkAccess ctx DROP_DICTIONARY d dictionary_name w1 of
                        (Some e, w2) \<Rightarrow> (Inl e, release w2)
                      | (None, w2) \<Rightarrow>
                          (Inr EmptyBlockIO, release (removeDictionary d dictionary_name w2)))))"

text \<open>
  The two loops of \<^verbatim>\<open>executeToDatabase\<close> (lines 263-267 and 275-281), over the
  names an iterator gave. A child's exception leaves the loop at once.
\<close>

fun dictionaries_loop :: "Context \<Rightarrow> string \<Rightarrow> Kind \<Rightarrow> string list \<Rightarrow> world \<Rightarrow> error option \<times> world" where
  "dictionaries_loop ctx database_name k [] w = (None, w)"
| "dictionaries_loop ctx database_name k (current_dictionary # rest) w =
     (case executeToDictionary ctx database_name current_dictionary k False False False w of
        (Inl e, w1) \<Rightarrow> (Some e, w1)
      | (Inr _, w1) \<Rightarrow> dictionaries_loop ctx database_name k rest w1)"

fun tables_loop ::
  "Context \<Rightarrow> ASTDropQuery \<Rightarrow> ASTDropQuery \<Rightarrow> string list \<Rightarrow> world \<Rightarrow> error option \<times> world" where
  "tables_loop ctx query_ptr query [] w = (None, w)"
| "tables_loop ctx query_ptr query (name # rest) w =
     (case executeToTable ctx query_ptr (query\<lparr>table := name\<rparr>) w of
        (Inl e, w1) \<Rightarrow> (Some e, w1)
      | (Inr _, w1) \<Rightarrow> tables_loop ctx query_ptr (query\<lparr>table := name\<rparr>) rest w1)"

text \<open>
  The statement built at lines 269-273; the fields it does not set keep the defaults of
  a fresh \<^verbatim>\<open>ASTDropQuery\<close>.
\<close>

definition child_query :: "string \<Rightarrow> Kind \<Rightarrow> bool \<Rightarrow> ASTDropQuery" where
  "child_query database_name k nd =
     \<lparr>kind = k, if_exists = True, temporary = False, is_dictionary = False, is_view = False,
      no_delay = nd, no_ddl_lock = False, database = database_name, table = [], cluster = []\<rparr>"

definition tables_snapshot :: "world \<Rightarrow> string \<Rightarrow> string list" where
  "tables_snapshot w database_name =
     (case databases w database_name of None \<Rightarrow> [] | Some x \<Rightarrow> getTablesIterator x)"

definition empty_database ::
  "Context \<Rightarrow> ASTDropQuery \<Rightarrow> string \<Rightarrow> Kind \<Rightarrow> bool \<Rightarrow> db \<Rightarrow> world \<Rightarrow> error option \<times> world" where
  "empty_database ctx query_ptr database_name k nd x w =
     (case dictionaries_loop ctx database_name k (getDictionariesIterator x) w of
        (Some e, w1) \<Rightarrow> (Some e, w1)
      | (None, w1) \<Rightarrow>
          tables_loop ctx query_ptr (child_query database_name k nd)
            (tables_snapshot w1 database_name) w1)"

text \<open>
  \<^verbatim>\<open>executeToDatabase\<close> (lines 243-297). The kind has three values, so the branch
  for Detach or Drop is the one left after Truncate.
\<close>

definition executeToDatabase ::
  "Context \<Rightarrow> ASTDropQuery \<Rightarrow> string \<Rightarrow> Kind \<Rightarrow> bool \<Rightarrow> bool \<Rightarrow> world \<Rightarrow> result" where
  "executeToDatabase ctx query_ptr database_name k if_ex nd w0 =
     (let w = emit (GetDDLGuard database_name []) w0;
          release = emit (ReleaseDDLGuard database_name [])
      in case tryGetDatabase w database_name if_ex of
           Inl e \<Rightarrow> (Inl e, release w)
         | Inr None \<Rightarrow> (Inr EmptyBlockIO, release w)
         | Inr (Some x) \<Rightarrow>
             if k = Truncate then (Inl SYNTAX_ERROR, release w)
             else
               (case checkAccess ctx DROP_DATABASE database_name [] w of
                  (Some e, w1) \<Rightarrow> (Inl e, release w1)
                | (None, w1) \<Rightarrow>
                    (case (if shouldBeEmptyOnDetach x
                           then empty_database ctx query_ptr database_name k nd x w1
                           else (None, w1)) of
                       (Some e, w2) \<Rightarrow> (Inl e, release w2)
                     | (None, w2) \<Rightarrow>
                         (let w3 = emit (GetExclusiveDDLGuardForDatabase database_name) w2;
                              release_db = emit (ReleaseExclusiveDDLGuardForDatabase database_name)
                          in case (if k \<noteq> Drop \<and> is_DatabaseAtomic x
                                   then assertCanBeDetached database_name x w3 else (None, w3)) of
                               (Some e, w4) \<Rightarrow> (Inl e, release (release_db w4))
                             | (None, w4) \<Rightarrow>
                                 (Inr EmptyBlockIO,
                                  release (release_db
                                    (detachDatabase database_name (k = Drop)
                                       (shouldBeEmptyOnDetach x) w4)))))))"

text \<open>
  \<^verbatim>\<open>execute\<close> (lines 39-59). The multi-host executor is outside the source: the
  call is recorded with the statement and the access it was given. Forcing
  \<^verbatim>\<open>no_delay\<close> writes to the statement the interpreter holds.
\<close>

definition execute :: "Context \<Rightarrow> ASTDropQuery \<Rightarrow> world \<Rightarrow> result" where
  "execute ctx query_ptr w =
     (if cluster query_ptr \<noteq> [] then
        (Inr OnClusterBlockIO,
         emit (ExecuteDDLQueryOnCluster query_ptr (getRequiredAccessForDDLOnCluster query_ptr)) w)
      else
        (let q = (if database_atomic_wait_for_drop_and_detach_synchronously ctx
                  then query_ptr\<lparr>no_delay := True\<rparr> else query_ptr)
         in if table q \<noteq> [] then
              (if \<not> is_dictionary q then executeToTable ctx q q w
               else executeToDictionary ctx (database q) (table q) (kind q) (if_exists q)
                      (temporary q) (no_ddl_lock q) w)
            else if database q \<noteq> [] then
              executeToDatabase ctx q (database q) (kind q) (if_exists q) (no_delay q) w
            else (Inl LOGICAL_ERROR, w)))"


subsection \<open>Vocabulary of the properties\<close>

text \<open>
  The events a run added to the trace.
\<close>

definition emitted :: "world \<Rightarrow> world \<Rightarrow> event list" where
  "emitted w w' = drop (length (trace w)) (trace w')"

fun is_enter :: "event \<Rightarrow> bool" where
  "is_enter (EnterExecuteToTable _) = True"
| "is_enter (EnterExecuteToDictionary _ _ _ _ _ _) = True"
| "is_enter _ = False"

text \<open>
  The outcome of the engine dispatch: a proposal to the log or a local mutation.
\<close>

fun is_dispatch :: "event \<Rightarrow> bool" where
  "is_dispatch (Propose _ _) = True"
| "is_dispatch (DetachTable _ _) = True"
| "is_dispatch (TruncateTable _ _) = True"
| "is_dispatch (DropTable _ _ _) = True"
| "is_dispatch _ = False"

fun is_lock :: "event \<Rightarrow> bool" where
  "is_lock (LockExclusively _ _) = True"
| "is_lock _ = False"

fun is_veto :: "event \<Rightarrow> bool" where
  "is_veto (CheckTableCanBeDropped _ _) = True"
| "is_veto _ = False"

fun is_access_check :: "event \<Rightarrow> bool" where
  "is_access_check (CheckAccess _ _ _) = True"
| "is_access_check _ = False"

fun is_wait :: "event \<Rightarrow> bool" where
  "is_wait (WaitTableFinallyDropped _) = True"
| "is_wait (WaitDetachedTableNotInUse _) = True"
| "is_wait _ = False"

fun is_detach_database :: "event \<Rightarrow> bool" where
  "is_detach_database (DetachDatabase _ _ _) = True"
| "is_detach_database _ = False"

text \<open>
  The calls on a database, a table or a dictionary object (the lifecycle hooks of the
  spec), as opposed to the guards, the access checks, the waits and the entries.
\<close>

fun is_lifecycle_hook :: "event \<Rightarrow> bool" where
  "is_lifecycle_hook (Shutdown _ _) = True"
| "is_lifecycle_hook (LockExclusively _ _) = True"
| "is_lifecycle_hook (CheckTableCanBeDropped _ _) = True"
| "is_lifecycle_hook (Propose _ _) = True"
| "is_lifecycle_hook (DetachTable _ _) = True"
| "is_lifecycle_hook (TruncateTable _ _) = True"
| "is_lifecycle_hook (DropTable _ _ _) = True"
| "is_lifecycle_hook (DetachDictionary _ _) = True"
| "is_lifecycle_hook (RemoveDictionary _ _) = True"
| "is_lifecycle_hook (AssertCanBeDetached _) = True"
| "is_lifecycle_hook (DetachDatabase _ _ _) = True"
| "is_lifecycle_hook (RemoveExternalTable _) = True"
| "is_lifecycle_hook (DropStorage _) = True"
| "is_lifecycle_hook _ = False"

text \<open>
  A statement whose table \<open>s\<close> is found in the catalog, in the database \<open>x\<close>; the
  access \<^verbatim>\<open>executeToTable\<close> checks for it (lines 98, 111 and 124); and the call
  that mutates locally, by kind (lines 107, 120 and 137).
\<close>

definition resolved_table :: "Context \<Rightarrow> world \<Rightarrow> ASTDropQuery \<Rightarrow> db \<Rightarrow> storage \<Rightarrow> bool" where
  "resolved_table ctx w q x s =
     (\<not> resolves_as_temporary w q \<and> \<not> temporary q \<and>
      databases w (table_database_name ctx q) = Some x \<and>
      map_of (db_tables x) (table q) = Some s)"

definition table_access_type :: "Kind \<Rightarrow> storage \<Rightarrow> AccessType" where
  "table_access_type k s =
     (if k = Truncate then TRUNCATE else if isView s then DROP_VIEW else DROP_TABLE)"


text \<open>
  \<open>preceded_by P Q es\<close>: no event of \<open>es\<close> that satisfies \<open>Q\<close> comes before the
  first one that satisfies \<open>P\<close>.
\<close>

fun preceded_by :: "(event \<Rightarrow> bool) \<Rightarrow> (event \<Rightarrow> bool) \<Rightarrow> event list \<Rightarrow> bool" where
  "preceded_by P Q [] = True"
| "preceded_by P Q (e # es) = (if P e then True else \<not> Q e \<and> preceded_by P Q es)"

text \<open>
  \<open>waits_outside_guard d t held es\<close>: running through \<open>es\<close>, with \<open>held\<close> saying
  whether the guard of \<open>(d, t)\<close> is held at the start, no wait is entered while that
  guard is held.
\<close>

fun waits_outside_guard :: "string \<Rightarrow> string \<Rightarrow> bool \<Rightarrow> event list \<Rightarrow> bool" where
  "waits_outside_guard d t held [] = True"
| "waits_outside_guard d t held (GetDDLGuard d' t' # es) =
     waits_outside_guard d t (held \<or> (d' = d \<and> t' = t)) es"
| "waits_outside_guard d t held (ReleaseDDLGuard d' t' # es) =
     waits_outside_guard d t (held \<and> (d' \<noteq> d \<or> t' \<noteq> t)) es"
| "waits_outside_guard d t held (WaitTableFinallyDropped u # es) =
     (\<not> held \<and> waits_outside_guard d t held es)"
| "waits_outside_guard d t held (WaitDetachedTableNotInUse u # es) =
     (\<not> held \<and> waits_outside_guard d t held es)"
| "waits_outside_guard d t held (e # es) = waits_outside_guard d t held es"

text \<open>
  A statement whose table is looked up in the catalog and is not there (lines 74-88).
\<close>

definition table_absent :: "Context \<Rightarrow> world \<Rightarrow> ASTDropQuery \<Rightarrow> bool" where
  "table_absent ctx w q =
     (\<not> resolves_as_temporary w q \<and>
      (temporary q \<or>
       (case databases w (table_database_name ctx q) of
          None \<Rightarrow> True
        | Some x \<Rightarrow> map_of (db_tables x) (table q) = None)))"

text \<open>
  The events of the guard of \<^verbatim>\<open>executeToTable\<close> (lines 82 and 142) and of its
  waits (lines 143-152), as lists.
\<close>

definition get_events :: "ASTDropQuery \<Rightarrow> string \<Rightarrow> event list" where
  "get_events q d = (if no_ddl_lock q then [] else [GetDDLGuard d (table q)])"

definition release_events :: "ASTDropQuery \<Rightarrow> string \<Rightarrow> event list" where
  "release_events q d = (if no_ddl_lock q then [] else [ReleaseDDLGuard d (table q)])"

definition wait_events :: "ASTDropQuery \<Rightarrow> db option \<Rightarrow> UUID \<Rightarrow> event list" where
  "wait_events q database_ptr u =
     (if no_delay q \<and> kind q = Drop then [WaitTableFinallyDropped u]
      else if no_delay q \<and> kind q = Detach
              \<and> (case database_ptr of None \<Rightarrow> False | Some x \<Rightarrow> is_DatabaseAtomic x)
      then [WaitDetachedTableNotInUse u] else [])"

text \<open>
  A dictionary statement whose dictionary is not in the database it names (line 181), and
  a statement of any shape whose target is not found.
\<close>

definition dictionary_absent :: "Context \<Rightarrow> world \<Rightarrow> ASTDropQuery \<Rightarrow> bool" where
  "dictionary_absent ctx w q =
     (case databases w (resolveDatabase ctx (database q)) of
        None \<Rightarrow> True
      | Some x \<Rightarrow> \<not> isDictionaryExist x (table q))"

definition target_absent :: "Context \<Rightarrow> world \<Rightarrow> ASTDropQuery \<Rightarrow> bool" where
  "target_absent ctx w q =
     (if table q \<noteq> [] then
        (if is_dictionary q then dictionary_absent ctx w q else table_absent ctx w q)
      else databases w (database q) = None)"

text \<open>
  The NotFound failures, and a run with no observable effect: no access check, no call
  on a database, table or dictionary object, the catalog and the temporary tables as
  before.
\<close>

definition is_not_found :: "error + BlockIO \<Rightarrow> bool" where
  "is_not_found r = (r = Inl UNKNOWN_TABLE \<or> r = Inl UNKNOWN_DICTIONARY \<or> r = Inl UNKNOWN_DATABASE)"

definition no_effect :: "world \<Rightarrow> world \<Rightarrow> bool" where
  "no_effect w w' =
     (filter is_access_check (emitted w w') = [] \<and> filter is_lifecycle_hook (emitted w w') = [] \<and>
      databases w' = databases w \<and> external_tables w' = external_tables w)"

text \<open>
  The statements that end in \<^verbatim>\<open>SYNTAX_ERROR\<close>, the UnsupportedOperation of the
  spec (lines 173, 199, 212 and 251).
\<close>

definition unsupported :: "Context \<Rightarrow> world \<Rightarrow> ASTDropQuery \<Rightarrow> bool" where
  "unsupported ctx w q =
     (if table q \<noteq> [] then
        (if is_dictionary q then
           temporary q \<or> (kind q = Truncate \<and> \<not> dictionary_absent ctx w q)
         else kind q = Detach \<and> resolves_as_temporary w q)
      else database q \<noteq> [] \<and> kind q = Truncate \<and> databases w (database q) \<noteq> None)"

text \<open>
  The entries into the dictionary handler and into the table handler that the teardown
  of the database \<open>x\<close> named \<open>d\<close> makes when no child fails: one per dictionary, with
  the arguments of line 266, then one per table, with the fields of the statement
  written out (not through \<open>child_query\<close>).
\<close>

definition child_invocations :: "string \<Rightarrow> Kind \<Rightarrow> bool \<Rightarrow> db \<Rightarrow> event list" where
  "child_invocations d k nd x =
     map (\<lambda>n. EnterExecuteToDictionary d n k False False False) (getDictionariesIterator x)
     @ map (\<lambda>n. EnterExecuteToTable
           \<lparr>kind = k, if_exists = True, temporary = False, is_dictionary = False,
            is_view = False, no_delay = nd, no_ddl_lock = False, database = d, table = n,
            cluster = []\<rparr>)
         (getTablesIterator x)"

text \<open>
  The world in which the loops of \<^verbatim>\<open>executeToDatabase\<close> start (lines 245-256
  done, access granted), and whether the table children of a teardown are handed to the
  replicated log instead of being removed (lines 104 and 134).
\<close>

definition teardown_start :: "string \<Rightarrow> world \<Rightarrow> world" where
  "teardown_start d w = emit (CheckAccess DROP_DATABASE d []) (emit (GetDDLGuard d []) w)"

definition teardown_redirected :: "Context \<Rightarrow> ASTDropQuery \<Rightarrow> Kind \<Rightarrow> db \<Rightarrow> bool" where
  "teardown_redirected ctx qp k x =
     (replicated_redirect ctx x \<and> (k = Drop \<longrightarrow> table qp \<noteq> []))"

subsection \<open>Concrete statements, contexts and worlds\<close>

definition example_query :: "Kind \<Rightarrow> string \<Rightarrow> string \<Rightarrow> ASTDropQuery" where
  "example_query k d t =
     \<lparr>kind = k, if_exists = False, temporary = False, is_dictionary = False, is_view = False,
      no_delay = False, no_ddl_lock = False, database = d, table = t, cluster = []\<rparr>"

definition example_context :: "QueryKind \<Rightarrow> Context" where
  "example_context qk =
     \<lparr>getCurrentDatabase = ''default'', query_kind = qk,
      database_atomic_wait_for_drop_and_detach_synchronously = False,
      granted = (\<lambda>a d t. True)\<rparr>"

definition example_storage :: "UUID \<Rightarrow> bool \<Rightarrow> storage" where
  "example_storage u droppable =
     \<lparr>isView = False, storage_uuid = u, can_be_dropped = droppable, lock_available = True,
      stored_rows = 5\<rparr>"

definition example_db :: "string \<Rightarrow> db" where
  "example_db engine =
     \<lparr>getEngineName = engine, is_DatabaseAtomic = (engine = ''Atomic''),
      shouldBeEmptyOnDetach = True, can_be_detached = True,
      db_tables = [(''t1'', example_storage 1 True), (''t2'', example_storage 2 False)],
      db_dictionaries = [''d1''], replicated_log = []\<rparr>"

definition example_world :: "string \<Rightarrow> world" where
  "example_world engine =
     \<lparr>databases = [''D'' \<mapsto> example_db engine], external_tables = Map.empty, trace = []\<rparr>"

definition denying_context :: "QueryKind \<Rightarrow> string \<Rightarrow> Context" where
  "denying_context qk name = (example_context qk)\<lparr>granted := (\<lambda>a d t. t \<noteq> name)\<rparr>"

text \<open>
  A world with one temporary table \<^verbatim>\<open>tmp\<close>, whose storage would refuse
  \<^verbatim>\<open>checkTableCanBeDropped\<close>.
\<close>

definition example_world_with_temporary :: world where
  "example_world_with_temporary =
     (example_world ''Ordinary'')\<lparr>external_tables := [''tmp'' \<mapsto> example_storage 9 False]\<rparr>"

section \<open>Properties\<close>

subsection \<open>Basic facts\<close>

lemma trace_emit [simp]: "trace (emit e w) = trace w @ [e]"
  by (simp add: emit_def)

lemma databases_emit [simp]: "databases (emit e w) = databases w"
  by (simp add: emit_def)

lemma external_tables_emit [simp]: "external_tables (emit e w) = external_tables w"
  by (simp add: emit_def)

lemma trace_update_db [simp]: "trace (update_db d f w) = trace w"
  by (simp add: update_db_def split: option.splits)

lemma external_tables_update_db [simp]: "external_tables (update_db d f w) = external_tables w"
  by (simp add: update_db_def split: option.splits)

lemma databases_update_db:
  "databases (update_db d f w) =
     (case databases w d of None \<Rightarrow> databases w | Some x \<Rightarrow> (databases w)(d \<mapsto> f x))"
  by (simp add: update_db_def split: option.splits)

lemma resolves_as_temporary_emit [simp]:
  "resolves_as_temporary (emit e w) q = resolves_as_temporary w q"
  by (simp add: resolves_as_temporary_def tryResolveExternal_def)

lemma executeToTable_resolved:
  assumes "resolved_table ctx w q x s"
  shows "executeToTable ctx qp q w =
     (let d = table_database_name ctx q; t = table q;
          w1 = get_ddl_guard (no_ddl_lock q) d t (emit (EnterExecuteToTable q) w);
          release = release_ddl_guard (no_ddl_lock q) d t
      in if is_view qp \<and> \<not> isView s then (Inl LOGICAL_ERROR, release w1)
         else case table_dispatch ctx qp q d t x s w1 of
                (Some e, w2) \<Rightarrow> (Inl e, release w2)
              | (None, w2) \<Rightarrow> (Inr (table_answer ctx (Some x)),
                    table_wait q (Some x) (storage_uuid s) (release w2)))"
  using assms
  by (auto simp add: resolved_table_def executeToTable_def executeToTable_in_def Let_def
      tryGetDatabaseAndTable_def getDatabaseAndTable_def tryGetTableUUID_def get_ddl_guard_def
      split: option.splits)

lemma executeToTable_absent:
  assumes "table_absent ctx w q"
  shows "executeToTable ctx qp q w =
     (let d = table_database_name ctx q; t = table q; w0 = emit (EnterExecuteToTable q) w;
          w1 = release_ddl_guard (no_ddl_lock q) d t (get_ddl_guard (no_ddl_lock q) d t w0)
      in if temporary q then
           (if if_exists q then (Inr EmptyBlockIO, w0) else (Inl UNKNOWN_TABLE, w0))
         else if if_exists q then
           (Inr (table_answer ctx (databases w d)),
            table_wait q (databases w d) UUIDHelpers_Nil w1)
         else (Inl (if databases w d = None then UNKNOWN_DATABASE else UNKNOWN_TABLE), w1))"
  using assms
  by (auto simp add: table_absent_def executeToTable_def executeToTable_in_def Let_def
      tryGetDatabaseAndTable_def getDatabaseAndTable_def get_ddl_guard_def
      split: option.splits)



lemma trace_get_ddl_guard [simp]:
  "trace (get_ddl_guard n d t w) = trace w @ (if n then [] else [GetDDLGuard d t])"
  and databases_get_ddl_guard [simp]: "databases (get_ddl_guard n d t w) = databases w"
  and external_tables_get_ddl_guard [simp]:
    "external_tables (get_ddl_guard n d t w) = external_tables w"
  by (simp_all add: get_ddl_guard_def)

lemma trace_release_ddl_guard [simp]:
  "trace (release_ddl_guard n d t w) = trace w @ (if n then [] else [ReleaseDDLGuard d t])"
  and databases_release_ddl_guard [simp]: "databases (release_ddl_guard n d t w) = databases w"
  and external_tables_release_ddl_guard [simp]:
    "external_tables (release_ddl_guard n d t w) = external_tables w"
  by (simp_all add: release_ddl_guard_def)

lemma trace_table_wait [simp]:
  "trace (table_wait q database_ptr u w) = trace w @ wait_events q database_ptr u"
  and databases_table_wait [simp]: "databases (table_wait q database_ptr u w) = databases w"
  and external_tables_table_wait [simp]:
    "external_tables (table_wait q database_ptr u w) = external_tables w"
  by (cases "kind q"; simp add: table_wait_def wait_events_def split: option.splits)+

lemmas step_defs = Let_def table_dispatch_def table_detach_def table_truncate_def
  table_drop_def checkAccess_def lockExclusively_def checkTableCanBeDropped_def
  lock_unless_self_synchronizing_def detachTable_def dropTable_def truncate_def propose_def


subsection \<open>The dispatch on a resolved table\<close>

lemma table_dispatch_trace:
  assumes "table_dispatch ctx qp q d t x s w = (r, w')"
  shows "trace w' = trace w @ emitted w w'"
  using assms
  by (cases "kind q"; auto simp add: step_defs emitted_def split: prod.splits option.splits if_splits)

lemma table_dispatch_external_tables:
  assumes "table_dispatch ctx qp q d t x s w = (r, w')"
  shows "external_tables w' = external_tables w"
  using assms
  by (cases "kind q"; auto simp add: step_defs split: prod.splits option.splits if_splits)

lemma table_dispatch_locks:
  assumes "table_dispatch ctx qp q d t x s w = (r, w')"
    and "granted ctx (table_access_type (kind q) s) d t"
    and "kind q \<noteq> Detach \<longrightarrow> can_be_dropped s"
  shows "filter is_lock (emitted w w') =
     (if kind q = Truncate \<or> (getEngineName x \<noteq> ''Atomic'' \<and> getEngineName x \<noteq> ''Replicated'')
      then [LockExclusively d t] else [])"
  using assms
  by (cases "kind q"; auto simp add: step_defs emitted_def table_access_type_def
      split: prod.splits option.splits if_splits)


lemma table_dispatch_veto:
  assumes "table_dispatch ctx qp q d t x s w = (r, w')"
  shows "kind q \<noteq> Detach \<Longrightarrow> preceded_by is_veto is_dispatch (emitted w w')"
    and "kind q = Detach \<Longrightarrow> filter is_veto (emitted w w') = []"
    and "kind q \<noteq> Detach \<Longrightarrow> granted ctx (table_access_type (kind q) s) d t \<Longrightarrow>
      filter is_veto (emitted w w') = [CheckTableCanBeDropped d t]"
    and "kind q \<noteq> Detach \<Longrightarrow> granted ctx (table_access_type (kind q) s) d t \<Longrightarrow>
      \<not> can_be_dropped s \<Longrightarrow>
      r = Some PreconditionViolation \<and> databases w' = databases w \<and>
      filter is_dispatch (emitted w w') = []"
  using assms
  by (cases "kind q"; auto simp add: step_defs emitted_def table_access_type_def
      split: prod.splits option.splits if_splits)+

lemma table_dispatch_no_guard_or_wait:
  assumes "table_dispatch ctx qp q d t x s w = (r, w')"
  shows "waits_outside_guard d' t' held (emitted w w' @ es) = waits_outside_guard d' t' held es"
    and "filter is_wait (emitted w w') = []"
  using assms
  by (cases "kind q"; auto simp add: step_defs emitted_def
      split: prod.splits option.splits if_splits)+

subsection \<open>The table handler on a resolved table\<close>

lemma executeToTable_not_a_view:
  assumes "resolved_table ctx w q x s" and "is_view qp" and "\<not> isView s"
  shows "fst (executeToTable ctx qp q w) = Inl LOGICAL_ERROR"
    and "emitted w (snd (executeToTable ctx qp q w)) =
      EnterExecuteToTable q # get_events q (table_database_name ctx q)
        @ release_events q (table_database_name ctx q)"
    and "databases (snd (executeToTable ctx qp q w)) = databases w"
    and "external_tables (snd (executeToTable ctx qp q w)) = external_tables w"
  using assms(2,3) unfolding executeToTable_resolved [OF assms(1)]
  by (simp_all add: Let_def emitted_def get_events_def release_events_def)

lemma executeToTable_dispatched_eq:
  assumes "resolved_table ctx w q x s" and "is_view qp \<longrightarrow> isView s"
    and "table_dispatch ctx qp q (table_database_name ctx q) (table q) x s
      (get_ddl_guard (no_ddl_lock q) (table_database_name ctx q) (table q)
        (emit (EnterExecuteToTable q) w)) = (r, w2)"
  shows "executeToTable ctx qp q w =
     (case r of
        Some e \<Rightarrow>
          (Inl e, release_ddl_guard (no_ddl_lock q) (table_database_name ctx q) (table q) w2)
      | None \<Rightarrow>
          (Inr (table_answer ctx (Some x)),
           table_wait q (Some x) (storage_uuid s)
             (release_ddl_guard (no_ddl_lock q) (table_database_name ctx q) (table q) w2)))"
proof -
  from assms(2) have v: "(is_view qp \<and> \<not> isView s) = False" by blast
  show ?thesis
    unfolding executeToTable_resolved [OF assms(1)] Let_def assms(3) v
    by (cases r) simp_all
qed

lemma executeToTable_dispatched:
  assumes "resolved_table ctx w q x s" and "is_view qp \<longrightarrow> isView s"
    and "table_dispatch ctx qp q (table_database_name ctx q) (table q) x s
      (get_ddl_guard (no_ddl_lock q) (table_database_name ctx q) (table q)
        (emit (EnterExecuteToTable q) w)) = (r, w2)"
  shows "fst (executeToTable ctx qp q w) =
      (case r of Some e \<Rightarrow> Inl e | None \<Rightarrow> Inr (table_answer ctx (Some x)))"
    and "emitted w (snd (executeToTable ctx qp q w)) =
      EnterExecuteToTable q # get_events q (table_database_name ctx q)
        @ emitted (get_ddl_guard (no_ddl_lock q) (table_database_name ctx q) (table q)
            (emit (EnterExecuteToTable q) w)) w2
        @ release_events q (table_database_name ctx q)
        @ (case r of Some e \<Rightarrow> [] | None \<Rightarrow> wait_events q (Some x) (storage_uuid s))"
    and "databases (snd (executeToTable ctx qp q w)) = databases w2"
    and "external_tables (snd (executeToTable ctx qp q w)) = external_tables w"
proof -
  let ?w1 = "get_ddl_guard (no_ddl_lock q) (table_database_name ctx q) (table q)
      (emit (EnterExecuteToTable q) w)"
  note ex = executeToTable_dispatched_eq [OF assms]
  obtain es where es: "trace w2 = trace ?w1 @ es" "emitted ?w1 w2 = es"
    using table_dispatch_trace [OF assms(3)] by simp
  note ext = table_dispatch_external_tables [OF assms(3)]
  show "fst (executeToTable ctx qp q w) =
      (case r of Some e \<Rightarrow> Inl e | None \<Rightarrow> Inr (table_answer ctx (Some x)))"
    unfolding ex by (cases r) simp_all
  show "emitted w (snd (executeToTable ctx qp q w)) =
      EnterExecuteToTable q # get_events q (table_database_name ctx q)
        @ emitted ?w1 w2
        @ release_events q (table_database_name ctx q)
        @ (case r of Some e \<Rightarrow> [] | None \<Rightarrow> wait_events q (Some x) (storage_uuid s))"
    unfolding ex es(2)
    by (cases r) (simp_all add: es(1) emitted_def get_events_def release_events_def)
  show "databases (snd (executeToTable ctx qp q w)) = databases w2"
    unfolding ex by (cases r) simp_all
  show "external_tables (snd (executeToTable ctx qp q w)) = external_tables w"
    unfolding ex using ext by (cases r) simp_all
qed


lemma table_dispatch_databases:
  assumes "table_dispatch ctx qp q d t x s w = (r, w')" and "databases w d = Some x"
  shows "databases w' =
     (if r \<noteq> None then databases w
      else if replicated_redirect ctx x \<and> (kind q = Drop \<longrightarrow> table qp \<noteq> [])
      then (databases w)(d \<mapsto> x\<lparr>replicated_log := replicated_log x @ [qp]\<rparr>)
      else if kind q = Truncate
      then (databases w)(d \<mapsto> x\<lparr>db_tables := truncate_rows t (db_tables x)\<rparr>)
      else (databases w)(d \<mapsto> x\<lparr>db_tables := AList.delete t (db_tables x)\<rparr>))"
  using assms
  by (cases "kind q"; auto simp add: step_defs databases_update_db
      split: prod.splits option.splits if_splits)

lemma table_routes:
  obtains (temporary) "resolves_as_temporary w q"
  | (absent) "table_absent ctx w q"
  | (resolved) x s where "resolved_table ctx w q x s"
proof (cases "resolves_as_temporary w q")
  case True
  then show ?thesis by (rule temporary)
next
  case False
  show ?thesis
  proof (cases "table_absent ctx w q")
    case True
    then show ?thesis by (rule absent)
  next
    case no: False
    with False obtain x s where "resolved_table ctx w q x s"
      by (auto simp add: table_absent_def resolved_table_def split: option.splits)
    then show ?thesis by (rule resolved)
  qed
qed

lemma preceded_by_append:
  "preceded_by P Q xs \<Longrightarrow> filter Q ys = [] \<Longrightarrow> preceded_by P Q (xs @ ys)"
  by (induction xs) (auto simp add: filter_empty_conv, induction ys, auto)

lemma executeToTable_temporary:
  assumes "resolves_as_temporary w q"
  shows "executeToTable ctx qp q w =
     executeToTemporaryTable (table q) (kind q) (emit (EnterExecuteToTable q) w)"
  using assms by (simp add: executeToTable_def Let_def)

lemma executeToTemporaryTable_trace:
  assumes "executeToTemporaryTable t k w = (r, w')"
  shows "trace w' = trace w @ emitted w w'"
    and "databases w' = databases w"
    and "waits_outside_guard d' t' held (emitted w w' @ es) = waits_outside_guard d' t' held es"
    and "filter is_wait (emitted w w') = []"
    and "filter is_enter (emitted w w') = []"
    and "filter is_detach_database (emitted w w') = []"
  using assms
  by (auto simp add: executeToTemporaryTable_def lockExclusively_def Let_def emitted_def
      split: option.splits if_splits prod.splits)

lemma executeToTable_absent_emitted:
  assumes "table_absent ctx w q"
  shows "emitted w (snd (executeToTable ctx qp q w)) =
     (if temporary q then [EnterExecuteToTable q]
      else EnterExecuteToTable q # get_events q (table_database_name ctx q)
        @ release_events q (table_database_name ctx q)
        @ (if if_exists q
           then wait_events q (databases w (table_database_name ctx q)) UUIDHelpers_Nil else []))"
    and "databases (snd (executeToTable ctx qp q w)) = databases w"
    and "external_tables (snd (executeToTable ctx qp q w)) = external_tables w"
  unfolding executeToTable_absent [OF assms]
  by (simp_all add: Let_def emitted_def get_events_def release_events_def)

lemma waits_outside_guard_own_guard:
  "waits_outside_guard d (table q) False (get_events q d @ es @ release_events q d @ ws)
     = (if no_ddl_lock q then waits_outside_guard d (table q) False (es @ ws)
        else waits_outside_guard d (table q) True (es @ ReleaseDDLGuard d (table q) # ws))"
  by (simp add: get_events_def release_events_def)

subsection \<open>Absent targets\<close>

lemma executeToTable_absent_result:
  assumes "table_absent ctx w q"
  shows "if if_exists q then \<not> isl (fst (executeToTable ctx qp q w))
      \<and> no_effect w (snd (executeToTable ctx qp q w))
     else is_not_found (fst (executeToTable ctx qp q w))"
  unfolding no_effect_def executeToTable_absent_emitted [OF assms]
  unfolding executeToTable_absent [OF assms]
  by (simp add: Let_def is_not_found_def get_events_def release_events_def wait_events_def)

lemma executeToDictionary_absent_result:
  assumes "dictionary_absent ctx w q" and "\<not> temporary q"
  shows "if if_exists q
     then \<not> isl (fst (executeToDictionary ctx (database q) (table q) (kind q) (if_exists q)
            (temporary q) (no_ddl_lock q) w))
      \<and> no_effect w (snd (executeToDictionary ctx (database q) (table q) (kind q) (if_exists q)
            (temporary q) (no_ddl_lock q) w))
     else is_not_found (fst (executeToDictionary ctx (database q) (table q) (kind q) (if_exists q)
            (temporary q) (no_ddl_lock q) w))"
  using assms
  by (auto simp add: dictionary_absent_def executeToDictionary_def Let_def tryGetDatabase_def
      catalog_tryGetDatabase_def catalog_getDatabase_def is_not_found_def no_effect_def emitted_def
      split: option.splits)

lemma executeToDatabase_absent_result:
  assumes "databases w d = None"
  shows "if ie then \<not> isl (fst (executeToDatabase ctx qp d k ie nd w))
      \<and> no_effect w (snd (executeToDatabase ctx qp d k ie nd w))
     else is_not_found (fst (executeToDatabase ctx qp d k ie nd w))"
  using assms
  by (auto simp add: executeToDatabase_def Let_def tryGetDatabase_def
      catalog_tryGetDatabase_def catalog_getDatabase_def is_not_found_def no_effect_def emitted_def)

lemma target_absent_no_delay: "target_absent ctx w (q\<lparr>no_delay := b\<rparr>) = target_absent ctx w q"
  by (simp add: target_absent_def dictionary_absent_def table_absent_def
      resolves_as_temporary_def table_database_name_def cong: option.case_cong)

subsection \<open>Where SYNTAX_ERROR comes from\<close>

lemma table_dispatch_error:
  assumes "table_dispatch ctx qp q d t x s w = (r, w')"
  shows "r \<noteq> Some SYNTAX_ERROR"
  using assms
  by (cases "kind q"; auto simp add: step_defs split: prod.splits option.splits if_splits)

lemma executeToTemporaryTable_unsupported:
  "fst (executeToTemporaryTable t k w) = Inl SYNTAX_ERROR \<longleftrightarrow> k = Detach"
  "k = Detach \<Longrightarrow> snd (executeToTemporaryTable t k w) = w"
  by (auto simp add: executeToTemporaryTable_def lockExclusively_def Let_def
      split: option.splits)

lemma executeToTable_unsupported:
  "fst (executeToTable ctx qp q w) = Inl SYNTAX_ERROR \<longleftrightarrow> kind q = Detach \<and> resolves_as_temporary w q"
proof (cases rule: table_routes [where w = w and q = q and ctx = ctx])
  case temporary
  then show ?thesis
    by (simp add: executeToTable_temporary executeToTemporaryTable_unsupported)
next
  case absent
  then have "\<not> resolves_as_temporary w q" by (simp add: table_absent_def)
  then show ?thesis
    unfolding executeToTable_absent [OF absent] by (simp add: Let_def)
next
  case (resolved x s)
  then have nt: "\<not> resolves_as_temporary w q" by (simp add: resolved_table_def)
  show ?thesis
  proof (cases "is_view qp \<and> \<not> isView s")
    case True
    then show ?thesis
      using executeToTable_not_a_view(1) [OF resolved, of qp] nt by simp
  next
    case False
    then have v: "is_view qp \<longrightarrow> isView s" by blast
    obtain r2 w2 where d: "table_dispatch ctx qp q (table_database_name ctx q) (table q) x s
        (get_ddl_guard (no_ddl_lock q) (table_database_name ctx q) (table q)
          (emit (EnterExecuteToTable q) w)) = (r2, w2)"
      by fastforce
    show ?thesis
      unfolding executeToTable_dispatched(1) [OF resolved v d]
      using table_dispatch_error [OF d] nt by (cases r2) simp_all
  qed
qed

lemma executeToTable_unsupported_unchanged:
  assumes "kind q = Detach" and "resolves_as_temporary w q"
  shows "databases (snd (executeToTable ctx qp q w)) = databases w"
    and "external_tables (snd (executeToTable ctx qp q w)) = external_tables w"
  using assms by (simp_all add: executeToTable_temporary executeToTemporaryTable_unsupported)

lemma executeToDictionary_unsupported:
  "fst (executeToDictionary ctx d n k ie is_temp nl w) = Inl SYNTAX_ERROR \<longleftrightarrow>
     is_temp \<or> (k = Truncate \<and>
       (case databases w (resolveDatabase ctx d) of None \<Rightarrow> False
        | Some x \<Rightarrow> isDictionaryExist x n))"
  by (cases k)
    (auto simp add: executeToDictionary_def Let_def tryGetDatabase_def
      catalog_tryGetDatabase_def catalog_getDatabase_def checkAccess_def
      split: option.splits)

lemma executeToDictionary_failure_unchanged:
  assumes "executeToDictionary ctx d n k ie is_temp nl w = (Inl e, w')"
  shows "databases w' = databases w" and "external_tables w' = external_tables w"
  using assms
  by (cases k;
      auto simp add: executeToDictionary_def Let_def tryGetDatabase_def
        catalog_tryGetDatabase_def catalog_getDatabase_def checkAccess_def
        detachDictionary_def removeDictionary_def
      split: option.splits if_splits)+

lemma dictionaries_loop_error:
  assumes "k \<noteq> Truncate"
  shows "fst (dictionaries_loop ctx d k ns w) \<noteq> Some SYNTAX_ERROR"
proof (induction ns arbitrary: w)
  case Nil
  show ?case by simp
next
  case (Cons n ns)
  obtain r1 w1 where e: "executeToDictionary ctx d n k False False False w = (r1, w1)"
    by fastforce
  have "r1 \<noteq> Inl SYNTAX_ERROR"
    using executeToDictionary_unsupported [of ctx d n k False False False w] assms e by simp
  then show ?case
    using Cons.IH [of w1] by (cases r1) (simp_all add: e)
qed

lemma tables_loop_error:
  assumes "database q \<noteq> []" and "\<not> temporary q"
  shows "fst (tables_loop ctx qp q ns w) \<noteq> Some SYNTAX_ERROR"
  using assms
proof (induction ns arbitrary: w q)
  case Nil
  show ?case by simp
next
  case (Cons n ns)
  let ?q = "q\<lparr>table := n\<rparr>"
  obtain r1 w1 where e: "executeToTable ctx qp ?q w = (r1, w1)"
    by fastforce
  have "\<not> resolves_as_temporary w ?q"
    using Cons.prems by (simp add: resolves_as_temporary_def)
  then have "r1 \<noteq> Inl SYNTAX_ERROR"
    using executeToTable_unsupported [of ctx qp ?q w] e by simp
  moreover have "fst (tables_loop ctx qp ?q ns w1) \<noteq> Some SYNTAX_ERROR"
    using Cons.prems by (intro Cons.IH) simp_all
  ultimately show ?case
    by (cases r1) (simp_all add: e)
qed

lemma empty_database_error:
  assumes "k \<noteq> Truncate" and "d \<noteq> []"
  shows "fst (empty_database ctx qp d k nd x w) \<noteq> Some SYNTAX_ERROR"
proof -
  obtain r1 w1 where l: "dictionaries_loop ctx d k (getDictionariesIterator x) w = (r1, w1)"
    by fastforce
  have r1: "r1 \<noteq> Some SYNTAX_ERROR"
    using dictionaries_loop_error [OF assms(1), of ctx d "getDictionariesIterator x" w] l by simp
  have "fst (tables_loop ctx qp (child_query d k nd) (tables_snapshot w1 d) w1) \<noteq> Some SYNTAX_ERROR"
    using assms(2) by (intro tables_loop_error) (simp_all add: child_query_def)
  with r1 show ?thesis
    by (cases r1) (simp_all add: empty_database_def l)
qed

lemma executeToDatabase_unsupported:
  assumes "d \<noteq> []"
  shows "fst (executeToDatabase ctx qp d k ie nd w) = Inl SYNTAX_ERROR \<longleftrightarrow>
     k = Truncate \<and> databases w d \<noteq> None"
    and "k = Truncate \<Longrightarrow> databases (snd (executeToDatabase ctx qp d k ie nd w)) = databases w
      \<and> external_tables (snd (executeToDatabase ctx qp d k ie nd w)) = external_tables w"
proof -
  show "k = Truncate \<Longrightarrow> databases (snd (executeToDatabase ctx qp d k ie nd w)) = databases w
      \<and> external_tables (snd (executeToDatabase ctx qp d k ie nd w)) = external_tables w"
    by (auto simp add: executeToDatabase_def Let_def tryGetDatabase_def
        catalog_tryGetDatabase_def catalog_getDatabase_def split: option.splits)
  show "fst (executeToDatabase ctx qp d k ie nd w) = Inl SYNTAX_ERROR \<longleftrightarrow>
     k = Truncate \<and> databases w d \<noteq> None"
  proof (cases "k = Truncate")
    case True
    then show ?thesis
      by (auto simp add: executeToDatabase_def Let_def tryGetDatabase_def
          catalog_tryGetDatabase_def catalog_getDatabase_def split: option.splits)
  next
    case False
    have e: "fst (empty_database ctx qp d k nd x w1) \<noteq> Some SYNTAX_ERROR" for x w1
      using False assms by (rule empty_database_error)
    show ?thesis
    proof (cases "databases w d")
      case None
      then show ?thesis
        by (simp add: executeToDatabase_def Let_def tryGetDatabase_def
            catalog_tryGetDatabase_def catalog_getDatabase_def)
    next
      case (Some x)
      let ?w1 = "emit (CheckAccess DROP_DATABASE d []) (emit (GetDDLGuard d []) w)"
      obtain r2 w2 where em: "empty_database ctx qp d k nd x ?w1 = (r2, w2)"
        by fastforce
      have "r2 \<noteq> Some SYNTAX_ERROR" using e [of x ?w1] em by simp
      then show ?thesis
        using False Some
        by (auto simp add: executeToDatabase_def Let_def tryGetDatabase_def
            catalog_tryGetDatabase_def catalog_getDatabase_def checkAccess_def
            assertCanBeDetached_def em split: option.splits)
    qed
  qed
qed


lemma unsupported_no_delay: "unsupported ctx w (q\<lparr>no_delay := b\<rparr>) = unsupported ctx w q"
  by (simp add: unsupported_def dictionary_absent_def resolves_as_temporary_def
      cong: option.case_cong)

subsection \<open>The entries of a run, and the teardown of a database\<close>

lemma table_dispatch_no_enter:
  assumes "table_dispatch ctx qp q d t x s w = (r, w')"
  shows "filter is_enter (emitted w w') = []"
    and "filter is_detach_database (emitted w w') = []"
  using assms
  by (cases "kind q"; auto simp add: step_defs emitted_def
      split: prod.splits option.splits if_splits)+

lemma executeToTable_enters:
  "filter is_enter (trace (snd (executeToTable ctx qp q w)))
     = filter is_enter (trace w) @ [EnterExecuteToTable q]"
  and executeToTable_no_detach_database:
  "filter is_detach_database (trace (snd (executeToTable ctx qp q w)))
     = filter is_detach_database (trace w)"
proof -
  have "filter is_enter (trace (snd (executeToTable ctx qp q w)))
     = filter is_enter (trace w) @ [EnterExecuteToTable q] \<and>
     filter is_detach_database (trace (snd (executeToTable ctx qp q w)))
     = filter is_detach_database (trace w)"
  proof (cases rule: table_routes [where w = w and q = q and ctx = ctx])
    case temporary
    obtain r1 w1 where t: "executeToTemporaryTable (table q) (kind q)
        (emit (EnterExecuteToTable q) w) = (r1, w1)"
      by fastforce
    from executeToTemporaryTable_trace(1,5,6) [OF t] show ?thesis
      unfolding executeToTable_temporary [OF temporary] t by simp
  next
    case absent
    show ?thesis
      unfolding executeToTable_absent [OF absent]
      by (simp add: Let_def wait_events_def)
  next
    case (resolved x s)
    show ?thesis
    proof (cases "is_view qp \<and> \<not> isView s")
      case True
      then show ?thesis
        unfolding executeToTable_resolved [OF resolved] by (simp add: Let_def)
    next
      case False
      then have v: "is_view qp \<longrightarrow> isView s" by blast
      obtain r2 w2 where d: "table_dispatch ctx qp q (table_database_name ctx q) (table q) x s
          (get_ddl_guard (no_ddl_lock q) (table_database_name ctx q) (table q)
            (emit (EnterExecuteToTable q) w)) = (r2, w2)"
        by fastforce
      from table_dispatch_trace [OF d] table_dispatch_no_enter [OF d] show ?thesis
        unfolding executeToTable_dispatched_eq [OF resolved v d]
        by (cases r2) (simp_all add: wait_events_def)
    qed
  qed
  then show "filter is_enter (trace (snd (executeToTable ctx qp q w)))
     = filter is_enter (trace w) @ [EnterExecuteToTable q]"
    and "filter is_detach_database (trace (snd (executeToTable ctx qp q w)))
     = filter is_detach_database (trace w)"
    by simp_all
qed

lemmas dictionary_defs = executeToDictionary_def Let_def tryGetDatabase_def
  catalog_tryGetDatabase_def catalog_getDatabase_def checkAccess_def
  detachDictionary_def removeDictionary_def

lemma executeToDictionary_enters:
  "filter is_enter (trace (snd (executeToDictionary ctx d n k ie is_temp nl w)))
     = filter is_enter (trace w) @ [EnterExecuteToDictionary d n k ie is_temp nl]"
  and executeToDictionary_no_detach_database:
  "filter is_detach_database (trace (snd (executeToDictionary ctx d n k ie is_temp nl w)))
     = filter is_detach_database (trace w)"
  and executeToDictionary_db_tables:
  "map_option db_tables (databases (snd (executeToDictionary ctx d n k ie is_temp nl w)) d')
     = map_option db_tables (databases w d')"
  by (cases k; simp add: dictionary_defs databases_update_db split: option.splits)+

lemma dictionaries_loop_enters:
  assumes "dictionaries_loop ctx d k ns w = (r, w')"
  shows "\<exists>m. filter is_enter (trace w') = filter is_enter (trace w)
        @ take m (map (\<lambda>n. EnterExecuteToDictionary d n k False False False) ns)
      \<and> m \<le> length ns \<and> (r = None \<longrightarrow> m = length ns)"
  using assms
proof (induction ns arbitrary: w)
  case Nil
  then show ?case by simp
next
  case (Cons n ns)
  obtain r1 w1 where e: "executeToDictionary ctx d n k False False False w = (r1, w1)"
    by fastforce
  have en: "filter is_enter (trace w1) = filter is_enter (trace w)
      @ [EnterExecuteToDictionary d n k False False False]"
    using executeToDictionary_enters [of ctx d n k False False False w] e by simp
  show ?case
  proof (cases r1)
    case (Inl a)
    with Cons.prems e have "w' = w1" by simp
    with en show ?thesis
      using Cons.prems e Inl by (intro exI [of _ 1]) auto
  next
    case (Inr b)
    with Cons.prems e have "dictionaries_loop ctx d k ns w1 = (r, w')" by simp
    from Cons.IH [OF this] obtain m where
      m: "filter is_enter (trace w') = filter is_enter (trace w1)
        @ take m (map (\<lambda>n. EnterExecuteToDictionary d n k False False False) ns)"
        "m \<le> length ns" "r = None \<longrightarrow> m = length ns"
      by blast
    show ?thesis
      using m en by (intro exI [of _ "Suc m"]) simp
  qed
qed

lemma dictionaries_loop_db_tables:
  "map_option db_tables (databases (snd (dictionaries_loop ctx d k ns w)) d')
     = map_option db_tables (databases w d')"
proof (induction ns arbitrary: w)
  case Nil
  show ?case by simp
next
  case (Cons n ns)
  obtain r1 w1 where e: "executeToDictionary ctx d n k False False False w = (r1, w1)"
    by fastforce
  have "map_option db_tables (databases w1 d') = map_option db_tables (databases w d')"
    using executeToDictionary_db_tables [of ctx d n k False False False w d'] e by simp
  then show ?case
    using Cons.IH [of w1] by (cases r1) (simp_all add: e)
qed

lemma tables_loop_enters:
  assumes "tables_loop ctx qp q ns w = (r, w')"
  shows "\<exists>m. filter is_enter (trace w') = filter is_enter (trace w)
        @ take m (map (\<lambda>n. EnterExecuteToTable (q\<lparr>table := n\<rparr>)) ns)
      \<and> (r = None \<longrightarrow> m = length ns)"
  using assms
proof (induction ns arbitrary: w q)
  case Nil
  then show ?case by simp
next
  case (Cons n ns)
  let ?q = "q\<lparr>table := n\<rparr>"
  obtain r1 w1 where e: "executeToTable ctx qp ?q w = (r1, w1)"
    by fastforce
  have en: "filter is_enter (trace w1) = filter is_enter (trace w) @ [EnterExecuteToTable ?q]"
    using executeToTable_enters [of ctx qp ?q w] e by simp
  show ?case
  proof (cases r1)
    case (Inl a)
    with Cons.prems e have "w' = w1" by simp
    with en show ?thesis
      using Cons.prems e Inl by (intro exI [of _ 1]) auto
  next
    case (Inr b)
    with Cons.prems e have "tables_loop ctx qp ?q ns w1 = (r, w')" by simp
    from Cons.IH [OF this] obtain m where
      m: "filter is_enter (trace w') = filter is_enter (trace w1)
        @ take m (map (\<lambda>n. EnterExecuteToTable (?q\<lparr>table := n\<rparr>)) ns)"
        "r = None \<longrightarrow> m = length ns"
      by blast
    show ?thesis
      using m en by (intro exI [of _ "Suc m"]) simp
  qed
qed

lemma empty_database_enters:
  assumes "empty_database ctx qp d k nd x w = (r, w')" and "databases w d = Some x"
  shows "\<exists>m. filter is_enter (trace w') = filter is_enter (trace w)
        @ take m (child_invocations d k nd x)
      \<and> (r = None \<longrightarrow> m = length (child_invocations d k nd x))"
proof -
  let ?ds = "map (\<lambda>n. EnterExecuteToDictionary d n k False False False) (getDictionariesIterator x)"
  let ?ts = "map (\<lambda>n. EnterExecuteToTable ((child_query d k nd)\<lparr>table := n\<rparr>)) (getTablesIterator x)"
  obtain r1 w1 where l: "dictionaries_loop ctx d k (getDictionariesIterator x) w = (r1, w1)"
    by fastforce
  from dictionaries_loop_enters [OF l] obtain m where
    m: "filter is_enter (trace w1) = filter is_enter (trace w) @ take m ?ds"
      "m \<le> length (getDictionariesIterator x)"
      "r1 = None \<longrightarrow> m = length (getDictionariesIterator x)"
    by auto
  show ?thesis
  proof (cases r1)
    case (Some e)
    with assms(1) l have "w' = w1" "r = Some e"
      by (simp_all add: empty_database_def)
    with m(1,2) show ?thesis
      by (intro exI [of _ m]) (simp add: child_invocations_def child_query_def)
  next
    case None
    have "map_option db_tables (databases w1 d) = map_option db_tables (databases w d)"
      using dictionaries_loop_db_tables [of ctx d k "getDictionariesIterator x" w d] l by simp
    then have snap: "tables_snapshot w1 d = getTablesIterator x"
      using assms(2) by (auto simp add: tables_snapshot_def getTablesIterator_def split: option.splits)
    from assms(1) l None
    have t: "tables_loop ctx qp (child_query d k nd) (getTablesIterator x) w1 = (r, w')"
      by (simp add: empty_database_def snap)
    from tables_loop_enters [OF t] obtain m' where
      m': "filter is_enter (trace w') = filter is_enter (trace w1) @ take m' ?ts"
        "r = None \<longrightarrow> m' = length (getTablesIterator x)"
      by auto
    from m None have full: "filter is_enter (trace w1) = filter is_enter (trace w) @ ?ds"
      by simp
    show ?thesis
      using m' full
      by (intro exI [of _ "length ?ds + m'"]) (simp add: child_invocations_def child_query_def)
  qed
qed


lemma executeToDatabase_present:
  assumes "databases w d = Some x" and "k \<noteq> Truncate"
  shows "executeToDatabase ctx qp d k ie nd w =
     (let release = emit (ReleaseDDLGuard d [])
      in case checkAccess ctx DROP_DATABASE d [] (emit (GetDDLGuard d []) w) of
           (Some e, w1) \<Rightarrow> (Inl e, release w1)
         | (None, w1) \<Rightarrow>
             (case (if shouldBeEmptyOnDetach x then empty_database ctx qp d k nd x w1
                    else (None, w1)) of
                (Some e, w2) \<Rightarrow> (Inl e, release w2)
              | (None, w2) \<Rightarrow>
                  (let w3 = emit (GetExclusiveDDLGuardForDatabase d) w2;
                       release_db = emit (ReleaseExclusiveDDLGuardForDatabase d)
                   in case (if k \<noteq> Drop \<and> is_DatabaseAtomic x
                            then assertCanBeDetached d x w3 else (None, w3)) of
                        (Some e, w4) \<Rightarrow> (Inl e, release (release_db w4))
                      | (None, w4) \<Rightarrow>
                          (Inr EmptyBlockIO,
                           release (release_db
                             (detachDatabase d (k = Drop) (shouldBeEmptyOnDetach x) w4))))))"
  using assms
  by (cases ie) (simp_all add: executeToDatabase_def Let_def tryGetDatabase_def
      catalog_tryGetDatabase_def catalog_getDatabase_def)

subsection \<open>Children of a teardown: what one child does to the catalog\<close>

lemma executeToDictionary_child:
  assumes "executeToDictionary ctx d n k False False False w = (r, w')"
    and "d \<noteq> []" and "k \<noteq> Truncate" and "databases w d = Some x"
  shows "databases w' =
     (if isl r then databases w
      else (databases w)(d \<mapsto> x\<lparr>db_dictionaries := removeAll n (db_dictionaries x)\<rparr>))"
  using assms
  by (cases k)
    (auto simp add: dictionary_defs resolveDatabase_def databases_update_db get_ddl_guard_def
      release_ddl_guard_def isDictionaryExist_def split: option.splits if_splits)

lemma child_not_temporary:
  assumes "\<not> temporary q" and "database q \<noteq> []"
  shows "\<not> resolves_as_temporary w q" and "table_database_name ctx q = database q"
  using assms by (simp_all add: resolves_as_temporary_def tryResolveExternal_def
      table_database_name_def)

lemma executeToTable_child:
  assumes "executeToTable ctx qp q w = (r, w')"
    and "\<not> temporary q" and "database q = d" and "d \<noteq> []" and "kind q \<noteq> Truncate"
    and "databases w d = Some x"
  shows "\<exists>x'. databases w' = (databases w)(d \<mapsto> x') \<and>
      getEngineName x' = getEngineName x \<and>
      db_dictionaries x' = db_dictionaries x \<and>
      (\<forall>n. n \<noteq> table q \<longrightarrow> map_of (db_tables x') n = map_of (db_tables x) n) \<and>
      (isl r \<longrightarrow> x' = x) \<and>
      (\<not> isl r \<and> \<not> teardown_redirected ctx qp (kind q) x \<longrightarrow>
         map_of (db_tables x') (table q) = None) \<and>
      (teardown_redirected ctx qp (kind q) x \<longrightarrow> db_tables x' = db_tables x)"
proof -
  from assms(1) have r: "r = fst (executeToTable ctx qp q w)"
    and w': "w' = snd (executeToTable ctx qp q w)" by simp_all
  from assms(2-4) have nt: "\<not> resolves_as_temporary w q" and dn: "table_database_name ctx q = d"
    by (simp_all add: child_not_temporary)
  have triv: "(databases w)(d \<mapsto> x) = databases w"
    using assms(6) by (simp add: map_upd_triv)
  show ?thesis
  proof (cases "map_of (db_tables x) (table q)")
    case None
    then have absent: "table_absent ctx w q"
      using nt dn assms(6) by (simp add: table_absent_def)
    have "databases w' = databases w"
      unfolding w' by (rule executeToTable_absent_emitted(2) [OF absent])
    with None triv show ?thesis
      by (intro exI [of _ x]) simp
  next
    case (Some s)
    then have resolved: "resolved_table ctx w q x s"
      using nt dn assms(2,6) by (simp add: resolved_table_def)
    show ?thesis
    proof (cases "is_view qp \<and> \<not> isView s")
      case True
      then have "databases w' = databases w" "isl r"
        unfolding r w' using executeToTable_not_a_view(1,3) [OF resolved, of qp] by simp_all
      with triv show ?thesis
        by (intro exI [of _ x]) simp
    next
      case False
      then have v: "is_view qp \<longrightarrow> isView s" by blast
      let ?w1 = "get_ddl_guard (no_ddl_lock q) (table_database_name ctx q) (table q)
          (emit (EnterExecuteToTable q) w)"
      obtain r2 w2 where dsp: "table_dispatch ctx qp q (table_database_name ctx q) (table q) x s ?w1
          = (r2, w2)"
        by fastforce
      have x1: "databases ?w1 (table_database_name ctx q) = Some x"
        using assms(6) dn by simp
      have dbs: "databases w' =
         (if r2 \<noteq> None then databases w
          else if teardown_redirected ctx qp (kind q) x
          then (databases w)(d \<mapsto> x\<lparr>replicated_log := replicated_log x @ [qp]\<rparr>)
          else (databases w)(d \<mapsto> x\<lparr>db_tables := AList.delete (table q) (db_tables x)\<rparr>))"
        unfolding w' executeToTable_dispatched(3) [OF resolved v dsp]
          table_dispatch_databases [OF dsp x1] teardown_redirected_def
        using assms(5) dn by auto
      have rr: "isl r \<longleftrightarrow> r2 \<noteq> None"
        unfolding r executeToTable_dispatched(1) [OF resolved v dsp] by (cases r2) simp_all
      show ?thesis
      proof (cases "r2 \<noteq> None")
        case True
        with dbs rr triv show ?thesis
          by (intro exI [of _ x]) simp
      next
        case ok: False
        show ?thesis
        proof (cases "teardown_redirected ctx qp (kind q) x")
          case True
          with dbs ok rr show ?thesis
            by (intro exI [of _ "x\<lparr>replicated_log := replicated_log x @ [qp]\<rparr>"]) simp
        next
          case False
          with dbs ok rr show ?thesis
            by (intro exI [of _ "x\<lparr>db_tables := AList.delete (table q) (db_tables x)\<rparr>"])
              (simp add: AList.delete_conv')
        qed
      qed
    qed
  qed
qed


subsection \<open>The loops of a teardown\<close>

lemma filter_removeAll_not_in:
  "filter (\<lambda>m. m \<notin> set ns) (removeAll n xs) = filter (\<lambda>m. m \<notin> set (n # ns)) xs"
  by (induction xs) auto

lemma dictionaries_loop_done:
  assumes "dictionaries_loop ctx d k ns w = (None, w')"
    and "d \<noteq> []" and "k \<noteq> Truncate" and "databases w d = Some x"
  shows "databases w' =
     (databases w)(d \<mapsto> x\<lparr>db_dictionaries := filter (\<lambda>n. n \<notin> set ns) (db_dictionaries x)\<rparr>)"
  using assms(1,4)
proof (induction ns arbitrary: w x)
  case Nil
  then show ?case by (simp add: map_upd_triv)
next
  case (Cons n ns)
  obtain r1 w1 where e: "executeToDictionary ctx d n k False False False w = (r1, w1)"
    by fastforce
  with Cons.prems(1) have ok: "\<not> isl r1" and rest: "dictionaries_loop ctx d k ns w1 = (None, w')"
    by (cases r1; simp)+
  let ?x1 = "x\<lparr>db_dictionaries := removeAll n (db_dictionaries x)\<rparr>"
  have w1: "databases w1 = (databases w)(d \<mapsto> ?x1)"
    using executeToDictionary_child [OF e assms(2,3) Cons.prems(2)] ok by simp
  then have "databases w1 d = Some ?x1" by simp
  from Cons.IH [OF rest this] show ?case
    by (simp add: w1 filter_removeAll_not_in fun_eq_iff)
qed


lemma dictionaries_loop_split:
  assumes "dictionaries_loop ctx d k pre w = (None, w1)"
    and "executeToDictionary ctx d c k False False False w1 = (Inl e, w2)"
  shows "dictionaries_loop ctx d k (pre @ c # post) w = (Some e, w2)"
  using assms(1)
proof (induction pre arbitrary: w)
  case Nil
  then show ?case by (simp add: assms(2))
next
  case (Cons n pre)
  obtain r1 w0 where e: "executeToDictionary ctx d n k False False False w = (r1, w0)"
    by fastforce
  with Cons.prems have "dictionaries_loop ctx d k pre w0 = (None, w1)" and "\<not> isl r1"
    by (cases r1; simp)+
  with Cons.IH [of w0] e show ?case
    by (cases r1) simp_all
qed

lemma dictionaries_loop_no_detach_database:
  "filter is_detach_database (trace (snd (dictionaries_loop ctx d k ns w)))
     = filter is_detach_database (trace w)"
proof (induction ns arbitrary: w)
  case Nil
  show ?case by simp
next
  case (Cons n ns)
  obtain r1 w1 where e: "executeToDictionary ctx d n k False False False w = (r1, w1)"
    by fastforce
  have "filter is_detach_database (trace w1) = filter is_detach_database (trace w)"
    using executeToDictionary_no_detach_database [of ctx d n k False False False w] e by simp
  then show ?case
    using Cons.IH [of w1] by (cases r1) (simp_all add: e)
qed

lemma tables_loop_split:
  assumes "tables_loop ctx qp q pre w = (None, w1)"
    and "executeToTable ctx qp (q\<lparr>table := c\<rparr>) w1 = (Inl e, w2)"
  shows "tables_loop ctx qp q (pre @ c # post) w = (Some e, w2)"
  using assms
proof (induction pre arbitrary: w q)
  case Nil
  then show ?case by simp
next
  case (Cons n pre)
  let ?q = "q\<lparr>table := n\<rparr>"
  obtain r1 w0 where e: "executeToTable ctx qp ?q w = (r1, w0)"
    by fastforce
  with Cons.prems(1) have "tables_loop ctx qp ?q pre w0 = (None, w1)" and "\<not> isl r1"
    by (cases r1; simp)+
  moreover have "executeToTable ctx qp (?q\<lparr>table := c\<rparr>) w1 = (Inl e, w2)"
    using Cons.prems(2) by simp
  ultimately have "tables_loop ctx qp ?q (pre @ c # post) w0 = (Some e, w2)"
    by (intro Cons.IH)
  with e \<open>\<not> isl r1\<close> show ?case
    by (cases r1) simp_all
qed

lemma tables_loop_no_detach_database:
  "filter is_detach_database (trace (snd (tables_loop ctx qp q ns w)))
     = filter is_detach_database (trace w)"
proof (induction ns arbitrary: w q)
  case Nil
  show ?case by simp
next
  case (Cons n ns)
  let ?q = "q\<lparr>table := n\<rparr>"
  obtain r1 w1 where e: "executeToTable ctx qp ?q w = (r1, w1)"
    by fastforce
  have "filter is_detach_database (trace w1) = filter is_detach_database (trace w)"
    using executeToTable_no_detach_database [of ctx qp ?q w] e by simp
  then show ?case
    using Cons.IH [of ?q w1] by (cases r1) (simp_all add: e)
qed

lemma teardown_redirected_engine:
  "getEngineName x' = getEngineName x \<Longrightarrow>
     teardown_redirected ctx qp k x' = teardown_redirected ctx qp k x"
  by (simp add: teardown_redirected_def replicated_redirect_def)

lemma tables_loop_done:
  assumes "tables_loop ctx qp q ns w = (None, w')"
    and "\<not> temporary q" and "database q = d" and "d \<noteq> []" and "kind q \<noteq> Truncate"
    and "databases w d = Some x"
  shows "\<exists>x'. databases w' = (databases w)(d \<mapsto> x') \<and>
      getEngineName x' = getEngineName x \<and>
      db_dictionaries x' = db_dictionaries x \<and>
      (\<forall>n. n \<notin> set ns \<longrightarrow> map_of (db_tables x') n = map_of (db_tables x) n) \<and>
      (\<not> teardown_redirected ctx qp (kind q) x \<longrightarrow>
         (\<forall>n \<in> set ns. map_of (db_tables x') n = None)) \<and>
      (teardown_redirected ctx qp (kind q) x \<longrightarrow> db_tables x' = db_tables x)"
  using assms
proof (induction ns arbitrary: w x q)
  case Nil
  then show ?case
    by (intro exI [of _ x]) (simp add: map_upd_triv)
next
  case (Cons n ns)
  let ?q = "q\<lparr>table := n\<rparr>"
  obtain r1 w1 where e: "executeToTable ctx qp ?q w = (r1, w1)"
    by fastforce
  with Cons.prems(1) have ok: "\<not> isl r1" and rest: "tables_loop ctx qp ?q ns w1 = (None, w')"
    by (cases r1; simp)+
  have q: "\<not> temporary ?q" "database ?q = d" "kind ?q \<noteq> Truncate" "kind ?q = kind q"
    "table ?q = n"
    using Cons.prems(2,3,5) by simp_all
  from executeToTable_child [OF e q(1,2) Cons.prems(4) q(3) Cons.prems(6)]
  obtain x1 where x1: "databases w1 = (databases w)(d \<mapsto> x1)"
    "getEngineName x1 = getEngineName x" "db_dictionaries x1 = db_dictionaries x"
    "\<forall>m. m \<noteq> n \<longrightarrow> map_of (db_tables x1) m = map_of (db_tables x) m"
    "\<not> teardown_redirected ctx qp (kind q) x \<longrightarrow> map_of (db_tables x1) n = None"
    "teardown_redirected ctx qp (kind q) x \<longrightarrow> db_tables x1 = db_tables x"
    using ok unfolding q(4,5) by blast
  have w1d: "databases w1 d = Some x1" using x1(1) by simp
  from Cons.IH [OF rest q(1,2) Cons.prems(4) q(3) w1d]
  obtain x' where x': "databases w' = (databases w1)(d \<mapsto> x')"
    "getEngineName x' = getEngineName x1" "db_dictionaries x' = db_dictionaries x1"
    "\<forall>m. m \<notin> set ns \<longrightarrow> map_of (db_tables x') m = map_of (db_tables x1) m"
    "\<not> teardown_redirected ctx qp (kind q) x1 \<longrightarrow> (\<forall>m \<in> set ns. map_of (db_tables x') m = None)"
    "teardown_redirected ctx qp (kind q) x1 \<longrightarrow> db_tables x' = db_tables x1"
    unfolding q(4) by blast
  note red = teardown_redirected_engine [OF x1(2), of ctx qp "kind q"]
  have "databases w' = (databases w)(d \<mapsto> x')"
    using x'(1) x1(1) by simp
  moreover have "getEngineName x' = getEngineName x" "db_dictionaries x' = db_dictionaries x"
    using x'(2,3) x1(2,3) by simp_all
  moreover have "\<forall>m. m \<notin> set (n # ns) \<longrightarrow> map_of (db_tables x') m = map_of (db_tables x) m"
    using x'(4) x1(4) by simp
  moreover have "\<not> teardown_redirected ctx qp (kind q) x \<longrightarrow>
      (\<forall>m \<in> set (n # ns). map_of (db_tables x') m = None)"
    using x'(4,5) x1(5) red by (metis set_ConsD)
  moreover have "teardown_redirected ctx qp (kind q) x \<longrightarrow> db_tables x' = db_tables x"
    using x'(6) x1(6) red by simp
  ultimately show ?case by blast
qed


lemma executeToDatabase_child_failure:
  assumes "databases w d = Some x" and "shouldBeEmptyOnDetach x" and "k \<noteq> Truncate"
    and "granted ctx DROP_DATABASE d []"
    and "empty_database ctx qp d k nd x (teardown_start d w) = (Some e, w2)"
  shows "executeToDatabase ctx qp d k ie nd w = (Inl e, emit (ReleaseDDLGuard d []) w2)"
  using assms(2,4,5) unfolding executeToDatabase_present [OF assms(1,3)]
  by (simp add: Let_def checkAccess_def teardown_start_def)

lemma iterator_sets:
  "set (getDictionariesIterator x) = set (db_dictionaries x)"
  "distinct (getDictionariesIterator x)"
  "set (getTablesIterator x) = fst ` set (db_tables x)"
  "distinct (getTablesIterator x)"
  by (simp_all add: getDictionariesIterator_def getTablesIterator_def)

lemma executeToDatabase_enters:
  assumes "databases w d = Some x"
    and "shouldBeEmptyOnDetach x"
    and "k \<noteq> Truncate"
    and "executeToDatabase ctx qp d k ie nd w = (r, w')"
  shows "\<exists>m. filter is_enter (trace w')
        = filter is_enter (trace w) @ take m (child_invocations d k nd x) \<and>
     (\<not> isl r \<longrightarrow> m = length (child_invocations d k nd x))"
proof (cases "granted ctx DROP_DATABASE d []")
  case False
  with assms(4) have "filter is_enter (trace w') = filter is_enter (trace w)" "isl r"
    unfolding executeToDatabase_present [OF assms(1,3)]
    by (auto simp add: Let_def checkAccess_def)
  then show ?thesis
    by (intro exI [of _ 0]) simp
next
  case True
  let ?w1 = "emit (CheckAccess DROP_DATABASE d []) (emit (GetDDLGuard d []) w)"
  obtain r2 w2 where e: "empty_database ctx qp d k nd x ?w1 = (r2, w2)"
    by fastforce
  have "databases ?w1 d = Some x" using assms(1) by simp
  from empty_database_enters [OF e this] obtain m where
    m: "filter is_enter (trace w2) = filter is_enter (trace w) @ take m (child_invocations d k nd x)"
      "r2 = None \<longrightarrow> m = length (child_invocations d k nd x)"
    by auto
  show ?thesis
  proof (cases r2)
    case (Some a)
    with assms(2,4) True e have "filter is_enter (trace w') = filter is_enter (trace w2)" "isl r"
      unfolding executeToDatabase_present [OF assms(1,3)]
      by (auto simp add: Let_def checkAccess_def)
    with m(1) show ?thesis by (intro exI [of _ m]) simp
  next
    case None
    with assms(2,4) True e have "filter is_enter (trace w') = filter is_enter (trace w2)"
      unfolding executeToDatabase_present [OF assms(1,3)]
      by (auto simp add: Let_def checkAccess_def assertCanBeDetached_def detachDatabase_def
          split: if_splits)
    with m None show ?thesis
      by (intro exI [of _ "length (child_invocations d k nd x)"]) simp
  qed
qed

lemmas example_defs = example_query_def example_context_def example_storage_def example_db_def
  example_world_def

lemmas run_defs = execute_def executeToTable_def executeToTable_in_def executeToTemporaryTable_def
  executeToDictionary_def executeToDatabase_def empty_database_def child_query_def
  tables_snapshot_def getTablesIterator_def getDictionariesIterator_def tryGetDatabase_def
  catalog_tryGetDatabase_def catalog_getDatabase_def tryGetDatabaseAndTable_def
  getDatabaseAndTable_def tryGetTableUUID_def isDictionaryExist_def resolveDatabase_def
  tryResolveExternal_def resolves_as_temporary_def table_database_name_def
  replicated_redirect_def assertCanBeDetached_def detachDictionary_def removeDictionary_def
  detachDatabase_def truncate_rows_def databases_update_db step_defs get_ddl_guard_def
  release_ddl_guard_def table_wait_def table_answer_def

subsection \<open>The required-access computator\<close>

text \<open>
  C5, counterexample. The claim gives \<open>{DROP_DICTIONARY on database.object}\<close> for a
  dictionary target whatever the kind. For a Truncate of a dictionary the computator
  returns the empty list.
\<close>

theorem required_access_truncate_dictionary_counterexample:
  "getRequiredAccessForDDLOnCluster ((example_query Truncate ''d'' ''x'')\<lparr>is_dictionary := True\<rparr>)
     \<noteq> [element_on_table {DROP_DICTIONARY} ''d'' ''x'']"
  by (simp add: getRequiredAccessForDDLOnCluster_def example_query_def)

text \<open>
  C5, amended. The computator reads the statement only (it takes no catalog), and
  returns: DROP_DATABASE on the database when the object name is empty and the kind is
  Drop or Detach; DROP_DICTIONARY on database.object for a dictionary target of kind Drop
  or Detach; DROP_TABLE together with DROP_VIEW on database.object for a non-temporary
  table or view target of kind Drop or Detach; TRUNCATE on database.object for such a
  target of kind Truncate; and nothing for a temporary table target.
\<close>

theorem required_access_by_target:
  "(table q = [] \<and> (kind q = Drop \<or> kind q = Detach) \<longrightarrow>
      getRequiredAccessForDDLOnCluster q = [element_on_database {DROP_DATABASE} (database q)]) \<and>
   (table q \<noteq> [] \<and> is_dictionary q \<and> (kind q = Drop \<or> kind q = Detach) \<longrightarrow>
      getRequiredAccessForDDLOnCluster q
        = [element_on_table {DROP_DICTIONARY} (database q) (table q)]) \<and>
   (table q \<noteq> [] \<and> \<not> is_dictionary q \<and> \<not> temporary q \<and> (kind q = Drop \<or> kind q = Detach) \<longrightarrow>
      getRequiredAccessForDDLOnCluster q
        = [element_on_table {DROP_TABLE, DROP_VIEW} (database q) (table q)]) \<and>
   (table q \<noteq> [] \<and> \<not> is_dictionary q \<and> \<not> temporary q \<and> kind q = Truncate \<longrightarrow>
      getRequiredAccessForDDLOnCluster q = [element_on_table {TRUNCATE} (database q) (table q)]) \<and>
   (table q \<noteq> [] \<and> \<not> is_dictionary q \<and> temporary q \<longrightarrow>
      getRequiredAccessForDDLOnCluster q = [])"
  by (cases "kind q") (simp_all add: getRequiredAccessForDDLOnCluster_def)

theorem required_access_by_target_witness:
  "getRequiredAccessForDDLOnCluster (example_query Detach ''d'' [])
     = [element_on_database {DROP_DATABASE} ''d''] \<and>
   getRequiredAccessForDDLOnCluster ((example_query Drop ''d'' ''x'')\<lparr>is_dictionary := True\<rparr>)
     = [element_on_table {DROP_DICTIONARY} ''d'' ''x''] \<and>
   getRequiredAccessForDDLOnCluster (example_query Detach ''d'' ''t'')
     = [element_on_table {DROP_TABLE, DROP_VIEW} ''d'' ''t''] \<and>
   getRequiredAccessForDDLOnCluster (example_query Truncate ''d'' ''t'')
     = [element_on_table {TRUNCATE} ''d'' ''t''] \<and>
   getRequiredAccessForDDLOnCluster ((example_query Drop ''d'' ''t'')\<lparr>temporary := True\<rparr>) = []"
  using required_access_by_target [of "example_query Detach ''d'' []"]
    required_access_by_target [of "(example_query Drop ''d'' ''x'')\<lparr>is_dictionary := True\<rparr>"]
    required_access_by_target [of "example_query Detach ''d'' ''t''"]
    required_access_by_target [of "example_query Truncate ''d'' ''t''"]
    required_access_by_target [of "(example_query Drop ''d'' ''t'')\<lparr>temporary := True\<rparr>"]
  by (simp add: example_query_def)

text \<open>
  C10. For a statement of kind Truncate the computator returns the empty list when the
  object name is empty and when the target is a dictionary; an element that carries
  DROP_DATABASE or DROP_DICTIONARY comes from a Drop or a Detach only; so a
  cluster-routed Truncate of a database or of a dictionary is handed to the multi-host
  executor with no access requirement.
\<close>

theorem truncate_database_or_dictionary_requires_nothing:
  "(kind q = Truncate \<and> (table q = [] \<or> is_dictionary q) \<longrightarrow>
      getRequiredAccessForDDLOnCluster q = []) \<and>
   (\<forall>e \<in> set (getRequiredAccessForDDLOnCluster q).
      DROP_DATABASE \<in> are_flags e \<or> DROP_DICTIONARY \<in> are_flags e \<longrightarrow>
      kind q = Drop \<or> kind q = Detach) \<and>
   (kind q = Truncate \<and> (table q = [] \<or> is_dictionary q) \<and> cluster q \<noteq> [] \<longrightarrow>
      execute ctx q w = (Inr OnClusterBlockIO, emit (ExecuteDDLQueryOnCluster q []) w))"
  by (cases "kind q")
    (auto simp add: getRequiredAccessForDDLOnCluster_def execute_def element_on_database_def
      element_on_table_def)

theorem truncate_database_or_dictionary_requires_nothing_witness:
  "getRequiredAccessForDDLOnCluster (example_query Truncate ''d'' []) = [] \<and>
   getRequiredAccessForDDLOnCluster ((example_query Truncate ''d'' ''x'')\<lparr>is_dictionary := True\<rparr>) = [] \<and>
   kind (example_query Drop ''d'' []) = Drop \<and>
   execute (example_context INITIAL_QUERY) ((example_query Truncate ''d'' [])\<lparr>cluster := ''c''\<rparr>)
       (example_world ''Ordinary'')
     = (Inr OnClusterBlockIO,
        emit (ExecuteDDLQueryOnCluster ((example_query Truncate ''d'' [])\<lparr>cluster := ''c''\<rparr>) [])
          (example_world ''Ordinary''))"
  using truncate_database_or_dictionary_requires_nothing [of "example_query Truncate ''d'' []"]
    truncate_database_or_dictionary_requires_nothing
      [of "(example_query Truncate ''d'' ''x'')\<lparr>is_dictionary := True\<rparr>"]
    truncate_database_or_dictionary_requires_nothing [of "example_query Drop ''d'' []"]
    truncate_database_or_dictionary_requires_nothing
      [of "(example_query Truncate ''d'' [])\<lparr>cluster := ''c''\<rparr>" "example_context INITIAL_QUERY"
        "example_world ''Ordinary''"]
  by (simp add: example_query_def)

subsection \<open>The table handler: locks, redirect, veto\<close>

text \<open>
  C4, counterexample. A Truncate of a table of an Atomic database takes the exclusive
  lock of the table: line 114 locks whatever the engine is.
\<close>

theorem truncate_locks_in_atomic_database_counterexample:
  "filter is_lock (trace (snd (execute (example_context INITIAL_QUERY)
      (example_query Truncate ''D'' ''t1'') (example_world ''Atomic''))))
     = [LockExclusively ''D'' ''t1'']"
  by (simp add: example_defs run_defs)

text \<open>
  C4, amended. For a table found in the catalog whose checks pass (the view check, the
  access check and, for Drop and Truncate, the veto), a Truncate takes the exclusive lock
  of the table once, whatever the engine of the database; a Drop and a Detach take it
  once when the engine is neither Atomic nor Replicated, and not at all otherwise.
\<close>

theorem exclusive_lock_by_kind_and_engine:
  assumes "resolved_table ctx w q x s"
    and "is_view qp \<longrightarrow> isView s"
    and "granted ctx (table_access_type (kind q) s) (table_database_name ctx q) (table q)"
    and "kind q \<noteq> Detach \<longrightarrow> can_be_dropped s"
  shows "filter is_lock (emitted w (snd (executeToTable ctx qp q w))) =
     (if kind q = Truncate \<or> (getEngineName x \<noteq> ''Atomic'' \<and> getEngineName x \<noteq> ''Replicated'')
      then [LockExclusively (table_database_name ctx q) (table q)] else [])"
proof -
  obtain r w2 where d: "table_dispatch ctx qp q (table_database_name ctx q) (table q) x s
      (get_ddl_guard (no_ddl_lock q) (table_database_name ctx q) (table q)
        (emit (EnterExecuteToTable q) w)) = (r, w2)"
    by fastforce
  show ?thesis
    unfolding executeToTable_dispatched(2) [OF assms(1,2) d]
    using table_dispatch_locks [OF d assms(3,4)]
    by (cases r) (simp_all add: get_events_def release_events_def wait_events_def)
qed

theorem exclusive_lock_by_kind_and_engine_witness:
  "filter is_lock (emitted (example_world ''Atomic'')
      (snd (executeToTable (example_context INITIAL_QUERY) (example_query Truncate ''D'' ''t1'')
          (example_query Truncate ''D'' ''t1'') (example_world ''Atomic''))))
     = [LockExclusively ''D'' ''t1''] \<and>
   filter is_lock (emitted (example_world ''Atomic'')
      (snd (executeToTable (example_context INITIAL_QUERY) (example_query Drop ''D'' ''t1'')
          (example_query Drop ''D'' ''t1'') (example_world ''Atomic''))))
     = []"
  using exclusive_lock_by_kind_and_engine [of "example_context INITIAL_QUERY"
      "example_world ''Atomic''" "example_query Truncate ''D'' ''t1''" "example_db ''Atomic''"
      "example_storage 1 True" "example_query Truncate ''D'' ''t1''"]
    exclusive_lock_by_kind_and_engine [of "example_context INITIAL_QUERY"
      "example_world ''Atomic''" "example_query Drop ''D'' ''t1''" "example_db ''Atomic''"
      "example_storage 1 True" "example_query Drop ''D'' ''t1''"]
  by (simp add: resolved_table_def resolves_as_temporary_def table_database_name_def
      table_access_type_def tryResolveExternal_def example_defs)




text \<open>
  The hook \<^verbatim>\<open>checkTableCanBeDropped\<close> in the dispatch on a catalog table, and its
  absence from the handler of temporary tables.
\<close>

lemma table_dispatch_veto_first:
  assumes "table_dispatch ctx qp q d t x s w = (r, w')"
  shows "kind q \<noteq> Detach \<Longrightarrow> preceded_by is_veto is_lifecycle_hook (emitted w w')"
    and "\<not> granted ctx (table_access_type (kind q) s) d t \<Longrightarrow>
      r = Some PermissionDenied \<and> filter is_veto (emitted w w') = []"
    and "kind q \<noteq> Detach \<Longrightarrow> granted ctx (table_access_type (kind q) s) d t \<Longrightarrow>
      \<not> can_be_dropped s \<Longrightarrow>
      filter is_lifecycle_hook (emitted w w') = [CheckTableCanBeDropped d t]"
proof -
  show "kind q \<noteq> Detach \<Longrightarrow> preceded_by is_veto is_lifecycle_hook (emitted w w')"
    using assms
    by (cases "kind q"; auto simp add: step_defs emitted_def table_access_type_def
        split: prod.splits option.splits if_splits)
  show "\<not> granted ctx (table_access_type (kind q) s) d t \<Longrightarrow>
      r = Some PermissionDenied \<and> filter is_veto (emitted w w') = []"
    using assms
    by (cases "kind q"; auto simp add: step_defs emitted_def table_access_type_def
        split: prod.splits option.splits if_splits)
  show "kind q \<noteq> Detach \<Longrightarrow> granted ctx (table_access_type (kind q) s) d t \<Longrightarrow>
      \<not> can_be_dropped s \<Longrightarrow>
      filter is_lifecycle_hook (emitted w w') = [CheckTableCanBeDropped d t]"
    using assms
    by (cases "kind q"; auto simp add: step_defs emitted_def table_access_type_def
        split: prod.splits option.splits if_splits)
qed

lemma executeToTemporaryTable_no_veto:
  assumes "executeToTemporaryTable t k w = (r, w')"
  shows "filter is_veto (emitted w w') = []"
  using assms
  by (auto simp add: executeToTemporaryTable_def lockExclusively_def Let_def emitted_def
      split: option.splits if_splits prod.splits)

lemma veto_on_resolved_table:
  assumes "resolved_table ctx w q x s"
    and "executeToTable ctx qp q w = (r, w')"
  shows "(kind q \<noteq> Detach \<longrightarrow> preceded_by is_veto is_lifecycle_hook (emitted w w')) \<and>
     (kind q = Detach \<longrightarrow> filter is_veto (emitted w w') = []) \<and>
     (kind q \<noteq> Detach \<and> (is_view qp \<longrightarrow> isView s) \<and>
      granted ctx (table_access_type (kind q) s) (table_database_name ctx q) (table q) \<longrightarrow>
        filter is_veto (emitted w w')
          = [CheckTableCanBeDropped (table_database_name ctx q) (table q)]) \<and>
     (\<not> ((is_view qp \<longrightarrow> isView s) \<and>
         granted ctx (table_access_type (kind q) s) (table_database_name ctx q) (table q)) \<longrightarrow>
        isl r \<and> filter is_veto (emitted w w') = []) \<and>
     (kind q \<noteq> Detach \<and> (is_view qp \<longrightarrow> isView s) \<and>
      granted ctx (table_access_type (kind q) s) (table_database_name ctx q) (table q) \<and>
      \<not> can_be_dropped s \<longrightarrow>
        r = Inl PreconditionViolation \<and> databases w' = databases w \<and>
        external_tables w' = external_tables w \<and>
        filter is_lifecycle_hook (emitted w w')
          = [CheckTableCanBeDropped (table_database_name ctx q) (table q)])"
proof (cases "is_view qp \<and> \<not> isView s")
  case True
  from assms(2) have r: "r = fst (executeToTable ctx qp q w)"
    and w': "w' = snd (executeToTable ctx qp q w)" by simp_all
  from True have em: "emitted w w' = EnterExecuteToTable q
      # get_events q (table_database_name ctx q) @ release_events q (table_database_name ctx q)"
    unfolding w' using executeToTable_not_a_view(2) [OF assms(1), of qp] by simp
  from True have "isl r"
    unfolding r using executeToTable_not_a_view(1) [OF assms(1), of qp] by simp
  with True show ?thesis
    unfolding em by (simp add: get_events_def release_events_def)
next
  case False
  then have v: "is_view qp \<longrightarrow> isView s" by blast
  from assms(2) have r: "r = fst (executeToTable ctx qp q w)"
    and w': "w' = snd (executeToTable ctx qp q w)" by simp_all
  let ?d = "table_database_name ctx q"
  let ?w1 = "get_ddl_guard (no_ddl_lock q) ?d (table q) (emit (EnterExecuteToTable q) w)"
  obtain r2 w2 where d: "table_dispatch ctx qp q ?d (table q) x s ?w1 = (r2, w2)"
    by fastforce
  define es where "es = emitted ?w1 w2"
  define tl where "tl = release_events q ?d
      @ (case r2 of Some e \<Rightarrow> [] | None \<Rightarrow> wait_events q (Some x) (storage_uuid s))"
  have tl: "filter is_lifecycle_hook tl = []" "filter is_veto tl = []"
    by (cases r2; simp add: tl_def release_events_def wait_events_def)+
  have em: "emitted w w' = EnterExecuteToTable q # get_events q ?d @ es @ tl"
    unfolding w' executeToTable_dispatched(2) [OF assms(1) v d] es_def tl_def by simp
  have hd: "filter is_veto (EnterExecuteToTable q # get_events q ?d) = []"
    "filter is_lifecycle_hook (EnterExecuteToTable q # get_events q ?d) = []"
    by (simp_all add: get_events_def)
  have rr: "r = (case r2 of Some e \<Rightarrow> Inl e | None \<Rightarrow> Inr (table_answer ctx (Some x)))"
    unfolding r by (rule executeToTable_dispatched(1) [OF assms(1) v d])
  have 1: "preceded_by is_veto is_lifecycle_hook (emitted w w')" if "kind q \<noteq> Detach"
  proof -
    have "preceded_by is_veto is_lifecycle_hook (es @ tl)"
      using table_dispatch_veto_first(1) [OF d that] tl(1) unfolding es_def
      by (rule preceded_by_append)
    then show ?thesis
      unfolding em by (simp add: get_events_def)
  qed
  have 2: "filter is_veto (emitted w w') = []" if "kind q = Detach"
    using table_dispatch_veto(2) [OF d that] tl(2) hd(1) unfolding em es_def by simp
  have 3: "filter is_veto (emitted w w') = [CheckTableCanBeDropped ?d (table q)]"
    if "kind q \<noteq> Detach" "granted ctx (table_access_type (kind q) s) ?d (table q)"
    using table_dispatch_veto(3) [OF d that] tl(2) hd(1) unfolding em es_def by simp
  have 4: "isl r \<and> filter is_veto (emitted w w') = []"
    if "\<not> granted ctx (table_access_type (kind q) s) ?d (table q)"
    using table_dispatch_veto_first(2) [OF d that] tl(2) hd(1) unfolding em es_def rr by simp
  have 5: "r = Inl PreconditionViolation \<and> databases w' = databases w \<and>
        external_tables w' = external_tables w \<and>
        filter is_lifecycle_hook (emitted w w') = [CheckTableCanBeDropped ?d (table q)]"
    if "kind q \<noteq> Detach" "granted ctx (table_access_type (kind q) s) ?d (table q)"
      "\<not> can_be_dropped s"
  proof -
    from table_dispatch_veto(4) [OF d that]
    have f: "r2 = Some PreconditionViolation" "databases w2 = databases ?w1"
      by simp_all
    from table_dispatch_veto_first(3) [OF d that]
    have g: "filter is_lifecycle_hook es = [CheckTableCanBeDropped ?d (table q)]"
      unfolding es_def .
    show ?thesis
      unfolding r w' executeToTable_dispatched(1,3,4) [OF assms(1) v d]
      using f g tl(1) hd(2) em [unfolded w'] by simp
  qed
  from 1 2 3 4 5 v show ?thesis by blast
qed

text \<open>
  C8, counterexample. A temporary table whose storage would refuse
  \<^verbatim>\<open>checkTableCanBeDropped\<close> is dropped all the same: the run succeeds, the table is
  removed, shut down, locked and dropped, and the hook is never called
  (\<^verbatim>\<open>executeToTemporaryTable\<close> has no such call). And a Drop of a catalog table that
  the access check refuses fails with PermissionDenied before the hook is reached.
\<close>

theorem veto_skipped_for_temporary_table_counterexample:
  "fst (execute (example_context INITIAL_QUERY) (example_query Drop [] ''tmp'')
      example_world_with_temporary) = Inr EmptyBlockIO \<and>
   trace (snd (execute (example_context INITIAL_QUERY) (example_query Drop [] ''tmp'')
      example_world_with_temporary))
     = [EnterExecuteToTable (example_query Drop [] ''tmp''), RemoveExternalTable ''tmp'',
        Shutdown [] ''tmp'', LockExclusively [] ''tmp'', DropStorage ''tmp''] \<and>
   external_tables (snd (execute (example_context INITIAL_QUERY) (example_query Drop [] ''tmp'')
      example_world_with_temporary)) ''tmp'' = None \<and>
   fst (execute (denying_context INITIAL_QUERY ''t1'') (example_query Drop ''D'' ''t1'')
      (example_world ''Ordinary'')) = Inl PermissionDenied \<and>
   filter is_veto (trace (snd (execute (denying_context INITIAL_QUERY ''t1'')
      (example_query Drop ''D'' ''t1'') (example_world ''Ordinary'')))) = []"
  by (simp add: example_world_with_temporary_def denying_context_def example_defs run_defs)

text \<open>
  C8, amended. In every run of the table handler on a table found in the catalog: in a
  Drop and in a Truncate the call of \<^verbatim>\<open>checkTableCanBeDropped\<close> comes before every
  other call on the table or the database (shutdown, exclusive lock, proposal, detach,
  truncate, drop); it is made exactly once when the view check and the access check have
  passed, and not at all, in a failing run, when one of them has not; a Detach never calls
  it; when the hook refuses, the run fails with PreconditionViolation, the catalog and
  the temporary tables are as before and the hook is the only call made, whatever
  \<^verbatim>\<open>if_exists\<close> is. In a run that resolves the name to a temporary table the hook is
  never called.
\<close>

theorem veto_precedes_every_call_on_a_catalog_table:
  assumes "executeToTable ctx qp q w = (r, w')"
  shows "(resolved_table ctx w q x s \<longrightarrow>
      (kind q \<noteq> Detach \<longrightarrow> preceded_by is_veto is_lifecycle_hook (emitted w w')) \<and>
      (kind q = Detach \<longrightarrow> filter is_veto (emitted w w') = []) \<and>
      (kind q \<noteq> Detach \<and> (is_view qp \<longrightarrow> isView s) \<and>
       granted ctx (table_access_type (kind q) s) (table_database_name ctx q) (table q) \<longrightarrow>
         filter is_veto (emitted w w')
           = [CheckTableCanBeDropped (table_database_name ctx q) (table q)]) \<and>
      (\<not> ((is_view qp \<longrightarrow> isView s) \<and>
          granted ctx (table_access_type (kind q) s) (table_database_name ctx q) (table q)) \<longrightarrow>
         isl r \<and> filter is_veto (emitted w w') = []) \<and>
      (kind q \<noteq> Detach \<and> (is_view qp \<longrightarrow> isView s) \<and>
       granted ctx (table_access_type (kind q) s) (table_database_name ctx q) (table q) \<and>
       \<not> can_be_dropped s \<longrightarrow>
         r = Inl PreconditionViolation \<and> databases w' = databases w \<and>
         external_tables w' = external_tables w \<and>
         filter is_lifecycle_hook (emitted w w')
           = [CheckTableCanBeDropped (table_database_name ctx q) (table q)])) \<and>
     (resolves_as_temporary w q \<longrightarrow> filter is_veto (emitted w w') = [])"
proof (rule conjI; rule impI)
  assume "resolved_table ctx w q x s"
  from veto_on_resolved_table [OF this assms]
  show "(kind q \<noteq> Detach \<longrightarrow> preceded_by is_veto is_lifecycle_hook (emitted w w')) \<and>
      (kind q = Detach \<longrightarrow> filter is_veto (emitted w w') = []) \<and>
      (kind q \<noteq> Detach \<and> (is_view qp \<longrightarrow> isView s) \<and>
       granted ctx (table_access_type (kind q) s) (table_database_name ctx q) (table q) \<longrightarrow>
         filter is_veto (emitted w w')
           = [CheckTableCanBeDropped (table_database_name ctx q) (table q)]) \<and>
      (\<not> ((is_view qp \<longrightarrow> isView s) \<and>
          granted ctx (table_access_type (kind q) s) (table_database_name ctx q) (table q)) \<longrightarrow>
         isl r \<and> filter is_veto (emitted w w') = []) \<and>
      (kind q \<noteq> Detach \<and> (is_view qp \<longrightarrow> isView s) \<and>
       granted ctx (table_access_type (kind q) s) (table_database_name ctx q) (table q) \<and>
       \<not> can_be_dropped s \<longrightarrow>
         r = Inl PreconditionViolation \<and> databases w' = databases w \<and>
         external_tables w' = external_tables w \<and>
         filter is_lifecycle_hook (emitted w w')
           = [CheckTableCanBeDropped (table_database_name ctx q) (table q)])" .
next
  assume temporary: "resolves_as_temporary w q"
  from assms have w': "w' = snd (executeToTable ctx qp q w)" by simp
  obtain r1 w1 where t: "executeToTemporaryTable (table q) (kind q)
      (emit (EnterExecuteToTable q) w) = (r1, w1)"
    by fastforce
  define es where "es = emitted (emit (EnterExecuteToTable q) w) w1"
  have tr: "trace w1 = (trace w @ [EnterExecuteToTable q]) @ es"
    using executeToTemporaryTable_trace(1) [OF t] by (simp add: es_def)
  have em: "emitted w w' = EnterExecuteToTable q # es"
    unfolding w' executeToTable_temporary [OF temporary] t using tr by (simp add: emitted_def)
  show "filter is_veto (emitted w w') = []"
    unfolding em using executeToTemporaryTable_no_veto [OF t] by (simp add: es_def)
qed

theorem veto_precedes_every_call_on_a_catalog_table_witness:
  "preceded_by is_veto is_lifecycle_hook (emitted (example_world ''Ordinary'')
      (snd (executeToTable (example_context INITIAL_QUERY) (example_query Drop ''D'' ''t1'')
          (example_query Drop ''D'' ''t1'') (example_world ''Ordinary'')))) \<and>
   filter is_veto (emitted (example_world ''Ordinary'')
      (snd (executeToTable (example_context INITIAL_QUERY) (example_query Drop ''D'' ''t1'')
          (example_query Drop ''D'' ''t1'') (example_world ''Ordinary''))))
     = [CheckTableCanBeDropped ''D'' ''t1''] \<and>
   filter is_veto (emitted (example_world ''Ordinary'')
      (snd (executeToTable (example_context INITIAL_QUERY) (example_query Detach ''D'' ''t2'')
          (example_query Detach ''D'' ''t2'') (example_world ''Ordinary'')))) = [] \<and>
   fst (executeToTable (example_context INITIAL_QUERY)
      ((example_query Truncate ''D'' ''t2'')\<lparr>if_exists := True\<rparr>)
      ((example_query Truncate ''D'' ''t2'')\<lparr>if_exists := True\<rparr>) (example_world ''Ordinary''))
     = Inl PreconditionViolation \<and>
   databases (snd (executeToTable (example_context INITIAL_QUERY)
      ((example_query Truncate ''D'' ''t2'')\<lparr>if_exists := True\<rparr>)
      ((example_query Truncate ''D'' ''t2'')\<lparr>if_exists := True\<rparr>) (example_world ''Ordinary'')))
     = databases (example_world ''Ordinary'') \<and>
   filter is_veto (emitted (example_world ''Ordinary'')
      (snd (executeToTable (denying_context INITIAL_QUERY ''t1'') (example_query Drop ''D'' ''t1'')
          (example_query Drop ''D'' ''t1'') (example_world ''Ordinary'')))) = [] \<and>
   filter is_veto (emitted example_world_with_temporary
      (snd (executeToTable (example_context INITIAL_QUERY) (example_query Truncate [] ''tmp'')
          (example_query Truncate [] ''tmp'') example_world_with_temporary))) = []"
proof -
  let ?ctx = "example_context INITIAL_QUERY"
  let ?w = "example_world ''Ordinary''"
  let ?x = "example_db ''Ordinary''"
  have run: "executeToTable c qp q w = (fst (executeToTable c qp q w), snd (executeToTable c qp q w))"
    for c qp q w by simp
  have res: "resolved_table c ?w (example_query k ''D'' ''t1'') ?x (example_storage 1 True)"
    "resolved_table c ?w (example_query k ''D'' ''t2'') ?x (example_storage 2 False)"
    "resolved_table c ?w ((example_query k ''D'' ''t2'')\<lparr>if_exists := True\<rparr>) ?x
       (example_storage 2 False)"
    "resolves_as_temporary example_world_with_temporary (example_query k [] ''tmp'')"
    for c k
    by (simp_all add: resolved_table_def resolves_as_temporary_def table_database_name_def
        tryResolveExternal_def example_world_with_temporary_def example_defs)
  note t = veto_precedes_every_call_on_a_catalog_table
  from t [OF run, of ?ctx ?w "example_query Drop ''D'' ''t1''" ?x "example_storage 1 True"
      "example_query Drop ''D'' ''t1''"] res(1)
  have 1: "preceded_by is_veto is_lifecycle_hook (emitted ?w
      (snd (executeToTable ?ctx (example_query Drop ''D'' ''t1'')
          (example_query Drop ''D'' ''t1'') ?w)))"
    "filter is_veto (emitted ?w
      (snd (executeToTable ?ctx (example_query Drop ''D'' ''t1'')
          (example_query Drop ''D'' ''t1'') ?w)))
     = [CheckTableCanBeDropped ''D'' ''t1'']"
    by (simp_all add: table_database_name_def table_access_type_def example_defs)
  from t [OF run, of ?ctx ?w "example_query Detach ''D'' ''t2''" ?x "example_storage 2 False"
      "example_query Detach ''D'' ''t2''"] res(2)
  have 2: "filter is_veto (emitted ?w
      (snd (executeToTable ?ctx (example_query Detach ''D'' ''t2'')
          (example_query Detach ''D'' ''t2'') ?w))) = []"
    by (simp add: example_defs)
  let ?q = "(example_query Truncate ''D'' ''t2'')\<lparr>if_exists := True\<rparr>"
  from t [OF run, of ?ctx ?w ?q ?x "example_storage 2 False" ?q] res(3)
  have 3: "fst (executeToTable ?ctx ?q ?q ?w) = Inl PreconditionViolation"
    "databases (snd (executeToTable ?ctx ?q ?q ?w)) = databases ?w"
    by (simp_all add: table_database_name_def table_access_type_def example_defs)
  from t [OF run, of "denying_context INITIAL_QUERY ''t1''" ?w
      "example_query Drop ''D'' ''t1''" ?x "example_storage 1 True"
      "example_query Drop ''D'' ''t1''"] res(1)
  have 4: "filter is_veto (emitted ?w
      (snd (executeToTable (denying_context INITIAL_QUERY ''t1'') (example_query Drop ''D'' ''t1'')
          (example_query Drop ''D'' ''t1'') ?w))) = []"
    by (simp add: table_database_name_def table_access_type_def denying_context_def example_defs)
  from t [OF run, of ?ctx example_world_with_temporary "example_query Truncate [] ''tmp''"
      ?x "example_storage 1 True" "example_query Truncate [] ''tmp''"] res(4)
  have 5: "filter is_veto (emitted example_world_with_temporary
      (snd (executeToTable ?ctx (example_query Truncate [] ''tmp'')
          (example_query Truncate [] ''tmp'') example_world_with_temporary))) = []"
    by simp
  from 1 2 3 4 5 show ?thesis by simp
qed

text \<open>
  C9. In every run of the table handler no wait is entered while the guard of the table's
  (database, name) is held: the guard, when taken, is released before the waits. For a
  table found in the catalog and a run that succeeds, the wait of a Drop and the wait of
  a Detach in a \<^verbatim>\<open>DatabaseAtomic\<close> are made on the uuid the table had at resolution,
  in the world the run started from; after a local Drop the name no longer leads to that
  uuid, which was read before the mutation.
\<close>

theorem waits_follow_guard_release:
  assumes "executeToTable ctx qp q w = (r, w')"
  shows "waits_outside_guard (table_database_name ctx q) (table q) False (emitted w w') \<and>
     (resolved_table ctx w q x s \<and> \<not> isl r \<longrightarrow>
        (no_delay q \<and> kind q = Drop \<longrightarrow>
           filter is_wait (emitted w w') = [WaitTableFinallyDropped (storage_uuid s)]) \<and>
        (no_delay q \<and> kind q = Detach \<and> is_DatabaseAtomic x \<longrightarrow>
           filter is_wait (emitted w w') = [WaitDetachedTableNotInUse (storage_uuid s)]) \<and>
        (kind q = Drop \<and> \<not> (table qp \<noteq> [] \<and> replicated_redirect ctx x) \<longrightarrow>
           map_option (\<lambda>y. tryGetTableUUID y (table q)) (databases w' (table_database_name ctx q))
             = Some UUIDHelpers_Nil))"
proof -
  from assms have r: "r = fst (executeToTable ctx qp q w)"
    and w': "w' = snd (executeToTable ctx qp q w)" by simp_all
  let ?d = "table_database_name ctx q"
  show ?thesis
  proof (cases rule: table_routes [where w = w and q = q and ctx = ctx])
    case temporary
    obtain r1 w1 where t: "executeToTemporaryTable (table q) (kind q)
        (emit (EnterExecuteToTable q) w) = (r1, w1)"
      by fastforce
    define es where "es = emitted (emit (EnterExecuteToTable q) w) w1"
    have tr: "trace w1 = (trace w @ [EnterExecuteToTable q]) @ es"
      using executeToTemporaryTable_trace(1) [OF t] by (simp add: es_def)
    have em: "emitted w w' = EnterExecuteToTable q # es"
      unfolding w' executeToTable_temporary [OF temporary] t using tr by (simp add: emitted_def)
    have "waits_outside_guard ?d (table q) False (es @ []) = waits_outside_guard ?d (table q) False []"
      unfolding es_def by (rule executeToTemporaryTable_trace(3) [OF t])
    then have 1: "waits_outside_guard ?d (table q) False (emitted w w')"
      unfolding em by simp
    from temporary have 2: "\<not> resolved_table ctx w q x s" for x s
      by (simp add: resolved_table_def)
    from 1 2 show ?thesis by blast
  next
    case absent
    have 1: "waits_outside_guard ?d (table q) False (emitted w w')"
      unfolding w' executeToTable_absent_emitted(1) [OF absent]
      by (simp add: get_events_def release_events_def wait_events_def)
    from absent have 2: "\<not> resolved_table ctx w q x s" for x s
      by (auto simp add: resolved_table_def table_absent_def)
    from 1 2 show ?thesis by blast
  next
    case (resolved x0 s0)
    have same: "\<not> resolved_table ctx w q x s" if "\<not> (x0 = x \<and> s0 = s)"
      using that resolved by (auto simp add: resolved_table_def)
    show ?thesis
    proof (cases "is_view qp \<and> \<not> isView s0")
      case True
      then have "emitted w w' = EnterExecuteToTable q # get_events q ?d @ release_events q ?d"
        and "isl r"
        unfolding r w' using executeToTable_not_a_view(1,2) [OF resolved, of qp] by simp_all
      then show ?thesis
        by (simp add: get_events_def release_events_def)
    next
      case False
      then have v: "is_view qp \<longrightarrow> isView s0" by blast
      let ?w1 = "get_ddl_guard (no_ddl_lock q) ?d (table q) (emit (EnterExecuteToTable q) w)"
      obtain r2 w2 where d: "table_dispatch ctx qp q ?d (table q) x0 s0 ?w1 = (r2, w2)"
        by fastforce
      define es where "es = emitted ?w1 w2"
      define ws where "ws = (case r2 of Some e \<Rightarrow> [] | None \<Rightarrow> wait_events q (Some x0) (storage_uuid s0))"
      have em: "emitted w w' = EnterExecuteToTable q # get_events q ?d @ es @ release_events q ?d @ ws"
        unfolding w' executeToTable_dispatched(2) [OF resolved v d] es_def ws_def by simp
      have skip: "waits_outside_guard ?d (table q) h (es @ zs) = waits_outside_guard ?d (table q) h zs"
        for h zs
        unfolding es_def by (rule table_dispatch_no_guard_or_wait(1) [OF d])
      have skip0: "waits_outside_guard ?d (table q) h es" for h
        using skip [of h "[]"] by simp
      have nw: "filter is_wait es = []"
        unfolding es_def by (rule table_dispatch_no_guard_or_wait(2) [OF d])
      have "waits_outside_guard ?d (table q) False (emitted w w')
          = waits_outside_guard ?d (table q) False
              (get_events q ?d @ es @ release_events q ?d @ ws)"
        unfolding em by simp
      also have "\<dots> = (if no_ddl_lock q then waits_outside_guard ?d (table q) False (es @ ws)
          else waits_outside_guard ?d (table q) True (es @ ReleaseDDLGuard ?d (table q) # ws))"
        by (rule waits_outside_guard_own_guard)
      also have "\<dots> = True"
        by (cases r2) (simp_all add: skip skip0 ws_def wait_events_def)
      finally have 1: "waits_outside_guard ?d (table q) False (emitted w w')"
        by simp
      have rr: "r = (case r2 of Some e \<Rightarrow> Inl e | None \<Rightarrow> Inr (table_answer ctx (Some x0)))"
        unfolding r by (rule executeToTable_dispatched(1) [OF resolved v d])
      have 2: "filter is_wait (emitted w w') = wait_events q (Some x0) (storage_uuid s0)" if "\<not> isl r"
        using that nw unfolding em rr
        by (cases r2) (simp_all add: ws_def get_events_def release_events_def wait_events_def)
      have x0: "databases ?w1 ?d = Some x0"
        using resolved by (simp add: resolved_table_def)
      have 3: "map_option (\<lambda>y. tryGetTableUUID y (table q)) (databases w' ?d)
          = Some UUIDHelpers_Nil"
        if "\<not> isl r" "kind q = Drop" "\<not> (table qp \<noteq> [] \<and> replicated_redirect ctx x0)"
        using that unfolding w' executeToTable_dispatched(3) [OF resolved v d]
          table_dispatch_databases [OF d x0] rr
        by (cases r2) (auto simp add: tryGetTableUUID_def AList.delete_conv')
      show ?thesis
      proof (cases "x0 = x \<and> s0 = s")
        case True
        with 1 2 3 show ?thesis by (auto simp add: wait_events_def)
      next
        case False
        from 1 same [OF False] show ?thesis by blast
      qed
    qed
  qed
qed


theorem waits_follow_guard_release_witness:
  "waits_outside_guard ''D'' ''t1'' False (emitted (example_world ''Ordinary'')
      (snd (executeToTable (example_context INITIAL_QUERY)
          ((example_query Drop ''D'' ''t1'')\<lparr>no_delay := True\<rparr>)
          ((example_query Drop ''D'' ''t1'')\<lparr>no_delay := True\<rparr>) (example_world ''Ordinary'')))) \<and>
   filter is_wait (emitted (example_world ''Ordinary'')
      (snd (executeToTable (example_context INITIAL_QUERY)
          ((example_query Drop ''D'' ''t1'')\<lparr>no_delay := True\<rparr>)
          ((example_query Drop ''D'' ''t1'')\<lparr>no_delay := True\<rparr>) (example_world ''Ordinary''))))
     = [WaitTableFinallyDropped 1] \<and>
   map_option (\<lambda>y. tryGetTableUUID y ''t1'') (databases
      (snd (executeToTable (example_context INITIAL_QUERY)
          ((example_query Drop ''D'' ''t1'')\<lparr>no_delay := True\<rparr>)
          ((example_query Drop ''D'' ''t1'')\<lparr>no_delay := True\<rparr>) (example_world ''Ordinary''))) ''D'')
     = Some UUIDHelpers_Nil \<and>
   filter is_wait (emitted (example_world ''Atomic'')
      (snd (executeToTable (example_context INITIAL_QUERY)
          ((example_query Detach ''D'' ''t1'')\<lparr>no_delay := True\<rparr>)
          ((example_query Detach ''D'' ''t1'')\<lparr>no_delay := True\<rparr>) (example_world ''Atomic''))))
     = [WaitDetachedTableNotInUse 1]"
  using waits_follow_guard_release [of "example_context INITIAL_QUERY"
      "(example_query Drop ''D'' ''t1'')\<lparr>no_delay := True\<rparr>"
      "(example_query Drop ''D'' ''t1'')\<lparr>no_delay := True\<rparr>" "example_world ''Ordinary''"
      "fst (executeToTable (example_context INITIAL_QUERY)
          ((example_query Drop ''D'' ''t1'')\<lparr>no_delay := True\<rparr>)
          ((example_query Drop ''D'' ''t1'')\<lparr>no_delay := True\<rparr>) (example_world ''Ordinary''))"
      "snd (executeToTable (example_context INITIAL_QUERY)
          ((example_query Drop ''D'' ''t1'')\<lparr>no_delay := True\<rparr>)
          ((example_query Drop ''D'' ''t1'')\<lparr>no_delay := True\<rparr>) (example_world ''Ordinary''))"
      "example_db ''Ordinary''" "example_storage 1 True"]
    waits_follow_guard_release [of "example_context INITIAL_QUERY"
      "(example_query Detach ''D'' ''t1'')\<lparr>no_delay := True\<rparr>"
      "(example_query Detach ''D'' ''t1'')\<lparr>no_delay := True\<rparr>" "example_world ''Atomic''"
      "fst (executeToTable (example_context INITIAL_QUERY)
          ((example_query Detach ''D'' ''t1'')\<lparr>no_delay := True\<rparr>)
          ((example_query Detach ''D'' ''t1'')\<lparr>no_delay := True\<rparr>) (example_world ''Atomic''))"
      "snd (executeToTable (example_context INITIAL_QUERY)
          ((example_query Detach ''D'' ''t1'')\<lparr>no_delay := True\<rparr>)
          ((example_query Detach ''D'' ''t1'')\<lparr>no_delay := True\<rparr>) (example_world ''Atomic''))"
      "example_db ''Atomic''" "example_storage 1 True"]
  by (simp add: resolved_table_def example_defs run_defs)

subsection \<open>Unsupported operations and absent targets\<close>

text \<open>
  C6, counterexample. A Truncate of a dictionary that does not exist, with
  \<^verbatim>\<open>if_exists\<close>, succeeds, and a Truncate of a database that does not exist fails
  with \<^verbatim>\<open>UNKNOWN_DATABASE\<close>: the existence of the target is settled (lines 181-189 and
  247) before the kind is looked at.
\<close>

theorem truncate_of_absent_target_counterexample:
  "fst (execute (example_context INITIAL_QUERY)
      ((example_query Truncate ''D'' ''nodict'')\<lparr>is_dictionary := True, if_exists := True\<rparr>)
      (example_world ''Ordinary'')) = Inr EmptyBlockIO \<and>
   fst (execute (example_context INITIAL_QUERY) (example_query Truncate ''nodb'' [])
      (example_world ''Ordinary'')) = Inl UNKNOWN_DATABASE"
  by (simp add: example_defs run_defs)

text \<open>
  C6, amended. A statement that is not cluster-routed fails with
  \<^verbatim>\<open>SYNTAX_ERROR\<close> exactly when it is: a statement on a temporary dictionary; a
  Truncate of a dictionary that exists; a Detach of a table that resolves as a temporary
  table; or a Truncate of a database that exists. In each case the catalog and the
  temporary tables are as before.
\<close>

theorem unsupported_operation_iff:
  assumes "cluster q = []"
    and "execute ctx q w = (r, w')"
  shows "(r = Inl SYNTAX_ERROR \<longleftrightarrow> unsupported ctx w q) \<and>
     (r = Inl SYNTAX_ERROR \<longrightarrow>
        databases w' = databases w \<and> external_tables w' = external_tables w)"
proof -
  from assms(2) have r: "r = fst (execute ctx q w)" and w': "w' = snd (execute ctx q w)"
    by simp_all
  define q' where "q' = (if database_atomic_wait_for_drop_and_detach_synchronously ctx
      then q\<lparr>no_delay := True\<rparr> else q)"
  have q': "table q' = table q" "database q' = database q" "is_dictionary q' = is_dictionary q"
    "temporary q' = temporary q" "if_exists q' = if_exists q" "kind q' = kind q"
    by (simp_all add: q'_def)
  have u: "unsupported ctx w q = unsupported ctx w q'"
    by (simp add: q'_def unsupported_no_delay)
  have ex: "execute ctx q w =
     (if table q' \<noteq> [] then
        (if \<not> is_dictionary q' then executeToTable ctx q' q' w
         else executeToDictionary ctx (database q') (table q') (kind q') (if_exists q')
                (temporary q') (no_ddl_lock q') w)
      else if database q' \<noteq> [] then
        executeToDatabase ctx q' (database q') (kind q') (if_exists q') (no_delay q') w
      else (Inl LOGICAL_ERROR, w))"
    using assms(1) by (simp add: execute_def Let_def q'_def)
  show ?thesis
  proof (cases "table q' \<noteq> []")
    case False
    show ?thesis
    proof (cases "database q' \<noteq> []")
      case True
      from executeToDatabase_unsupported [OF True, where ctx = ctx and qp = q' and k = "kind q'"
          and ie = "if_exists q'" and nd = "no_delay q'" and w = w]
      show ?thesis
        unfolding r w' ex u using False True by (simp add: unsupported_def)
    next
      case nodb: False
      with False show ?thesis
        unfolding r w' ex u by (simp add: unsupported_def)
    qed
  next
    case True
    show ?thesis
    proof (cases "is_dictionary q'")
      case dict: True
      obtain r1 w1 where e: "executeToDictionary ctx (database q') (table q') (kind q')
          (if_exists q') (temporary q') (no_ddl_lock q') w = (r1, w1)"
        by fastforce
      have 1: "r1 = Inl SYNTAX_ERROR \<longleftrightarrow> unsupported ctx w q'"
        using executeToDictionary_unsupported [of ctx "database q'" "table q'" "kind q'"
            "if_exists q'" "temporary q'" "no_ddl_lock q'" w] True dict
        by (simp add: e unsupported_def dictionary_absent_def split: option.splits)
      have 2: "databases w1 = databases w \<and> external_tables w1 = external_tables w"
        if "r1 = Inl SYNTAX_ERROR"
        using executeToDictionary_failure_unchanged [OF e [unfolded that]] by simp
      from 1 2 show ?thesis
        unfolding r w' ex u using True dict by (simp add: e)
    next
      case nodict: False
      from executeToTable_unsupported [of ctx q' q' w]
        executeToTable_unsupported_unchanged [where q = q' and w = w and ctx = ctx and qp = q']
      show ?thesis
        unfolding r w' ex u using True nodict by (auto simp add: unsupported_def)
    qed
  qed
qed

theorem unsupported_operation_iff_witness:
  "fst (execute (example_context INITIAL_QUERY)
      ((example_query Truncate ''D'' ''d1'')\<lparr>is_dictionary := True\<rparr>) (example_world ''Ordinary''))
     = Inl SYNTAX_ERROR \<and>
   databases (snd (execute (example_context INITIAL_QUERY)
      ((example_query Truncate ''D'' ''d1'')\<lparr>is_dictionary := True\<rparr>) (example_world ''Ordinary'')))
     = databases (example_world ''Ordinary'') \<and>
   fst (execute (example_context INITIAL_QUERY)
      ((example_query Drop ''D'' ''d1'')\<lparr>is_dictionary := True\<rparr>) (example_world ''Ordinary''))
     \<noteq> Inl SYNTAX_ERROR"
  using unsupported_operation_iff [of "(example_query Truncate ''D'' ''d1'')\<lparr>is_dictionary := True\<rparr>"
      "example_context INITIAL_QUERY" "example_world ''Ordinary''"
      "fst (execute (example_context INITIAL_QUERY)
          ((example_query Truncate ''D'' ''d1'')\<lparr>is_dictionary := True\<rparr>) (example_world ''Ordinary''))"
      "snd (execute (example_context INITIAL_QUERY)
          ((example_query Truncate ''D'' ''d1'')\<lparr>is_dictionary := True\<rparr>) (example_world ''Ordinary''))"]
    unsupported_operation_iff [of "(example_query Drop ''D'' ''d1'')\<lparr>is_dictionary := True\<rparr>"
      "example_context INITIAL_QUERY" "example_world ''Ordinary''"
      "fst (execute (example_context INITIAL_QUERY)
          ((example_query Drop ''D'' ''d1'')\<lparr>is_dictionary := True\<rparr>) (example_world ''Ordinary''))"
      "snd (execute (example_context INITIAL_QUERY)
          ((example_query Drop ''D'' ''d1'')\<lparr>is_dictionary := True\<rparr>) (example_world ''Ordinary''))"]
  by (simp add: unsupported_def dictionary_absent_def resolveDatabase_def isDictionaryExist_def
      example_defs)

text \<open>
  C7, counterexample. A Drop of a temporary dictionary that does not exist, with
  \<^verbatim>\<open>if_exists\<close>, fails with \<^verbatim>\<open>SYNTAX_ERROR\<close>: line 172 refuses temporary
  dictionaries before any resolution.
\<close>

theorem temporary_dictionary_absent_counterexample:
  "fst (execute (example_context INITIAL_QUERY)
      ((example_query Drop ''D'' ''nodict'')
         \<lparr>is_dictionary := True, temporary := True, if_exists := True\<rparr>)
      (example_world ''Ordinary'')) = Inl SYNTAX_ERROR"
  by (simp add: example_defs run_defs)

text \<open>
  C7, amended. For a statement that is not cluster-routed, names a database or an object
  and is not on a temporary dictionary, whose target is not found: without
  \<^verbatim>\<open>if_exists\<close> the run fails with one of the NotFound codes; with
  \<^verbatim>\<open>if_exists\<close> it succeeds, makes no access check and no call on a database, table
  or dictionary object, and leaves the catalog and the temporary tables as they were.
\<close>

theorem absent_target_not_found_or_ignored:
  assumes "cluster q = []"
    and "table q \<noteq> [] \<or> database q \<noteq> []"
    and "\<not> (table q \<noteq> [] \<and> is_dictionary q \<and> temporary q)"
    and "target_absent ctx w q"
    and "execute ctx q w = (r, w')"
  shows "(\<not> if_exists q \<longrightarrow> is_not_found r) \<and> (if_exists q \<longrightarrow> \<not> isl r \<and> no_effect w w')"
proof -
  from assms(5) have r: "r = fst (execute ctx q w)" and w': "w' = snd (execute ctx q w)"
    by simp_all
  define q' where "q' = (if database_atomic_wait_for_drop_and_detach_synchronously ctx
      then q\<lparr>no_delay := True\<rparr> else q)"
  have q': "table q' = table q" "database q' = database q" "is_dictionary q' = is_dictionary q"
    "temporary q' = temporary q" "if_exists q' = if_exists q" "kind q' = kind q"
    by (simp_all add: q'_def)
  have abs: "target_absent ctx w q'"
    using assms(4) by (simp add: q'_def target_absent_no_delay)
  have ex: "execute ctx q w =
     (if table q \<noteq> [] then
        (if \<not> is_dictionary q then executeToTable ctx q' q' w
         else executeToDictionary ctx (database q') (table q') (kind q') (if_exists q')
                (temporary q') (no_ddl_lock q') w)
      else executeToDatabase ctx q' (database q') (kind q') (if_exists q') (no_delay q') w)"
    using assms(1,2) by (simp add: execute_def Let_def q'_def)
  show ?thesis
  proof (cases "table q \<noteq> []")
    case False
    with abs have "databases w (database q') = None"
      by (simp add: target_absent_def q')
    from executeToDatabase_absent_result [OF this, of "if_exists q'" ctx q' "kind q'" "no_delay q'"]
    show ?thesis
      unfolding r w' ex using False by (simp add: q' split: if_splits)
  next
    case True
    show ?thesis
    proof (cases "is_dictionary q")
      case dict: True
      with True abs assms(3) have "dictionary_absent ctx w q'" "\<not> temporary q'"
        by (simp_all add: target_absent_def q')
      from executeToDictionary_absent_result [OF this]
      show ?thesis
        unfolding r w' ex using True dict by (simp add: q' split: if_splits)
    next
      case nodict: False
      with True abs have "table_absent ctx w q'"
        by (simp add: target_absent_def q')
      from executeToTable_absent_result [OF this, of q']
      show ?thesis
        unfolding r w' ex using True nodict by (simp add: q' split: if_splits)
    qed
  qed
qed



theorem absent_target_not_found_or_ignored_witness:
  "is_not_found (fst (execute (example_context INITIAL_QUERY) (example_query Drop ''D'' ''t9'')
      (example_world ''Ordinary''))) \<and>
   \<not> isl (fst (execute (example_context INITIAL_QUERY)
      ((example_query Detach ''D'' ''d9'')\<lparr>is_dictionary := True, if_exists := True\<rparr>)
      (example_world ''Ordinary''))) \<and>
   no_effect (example_world ''Ordinary'') (snd (execute (example_context INITIAL_QUERY)
      ((example_query Detach ''D'' ''d9'')\<lparr>is_dictionary := True, if_exists := True\<rparr>)
      (example_world ''Ordinary'')))"
  using absent_target_not_found_or_ignored [of "example_query Drop ''D'' ''t9''"
      "example_context INITIAL_QUERY" "example_world ''Ordinary''"
      "fst (execute (example_context INITIAL_QUERY) (example_query Drop ''D'' ''t9'')
          (example_world ''Ordinary''))"
      "snd (execute (example_context INITIAL_QUERY) (example_query Drop ''D'' ''t9'')
          (example_world ''Ordinary''))"]
    absent_target_not_found_or_ignored
      [of "(example_query Detach ''D'' ''d9'')\<lparr>is_dictionary := True, if_exists := True\<rparr>"
      "example_context INITIAL_QUERY" "example_world ''Ordinary''"
      "fst (execute (example_context INITIAL_QUERY)
          ((example_query Detach ''D'' ''d9'')\<lparr>is_dictionary := True, if_exists := True\<rparr>)
          (example_world ''Ordinary''))"
      "snd (execute (example_context INITIAL_QUERY)
          ((example_query Detach ''D'' ''d9'')\<lparr>is_dictionary := True, if_exists := True\<rparr>)
          (example_world ''Ordinary''))"]
  by (simp add: target_absent_def table_absent_def dictionary_absent_def resolveDatabase_def
      isDictionaryExist_def resolves_as_temporary_def tryResolveExternal_def
      table_database_name_def example_defs)


subsection \<open>The teardown of a database\<close>

text \<open>
  C1, counterexample. DROP DATABASE on a database with the dictionary \<open>d1\<close> and the
  tables \<open>t1\<close> and \<open>t2\<close>: the dictionary handler is entered with
  \<^verbatim>\<open>if_exists = false\<close> (the fourth argument, line 266), the table handler with
  \<^verbatim>\<open>if_exists = true\<close>.
\<close>

theorem dictionary_children_not_if_exists_counterexample:
  "filter is_enter (trace (snd (execute (example_context INITIAL_QUERY)
      (example_query Drop ''D'' []) (example_world ''Ordinary''))))
     = [EnterExecuteToDictionary ''D'' ''d1'' Drop False False False,
        EnterExecuteToTable
          \<lparr>kind = Drop, if_exists = True, temporary = False, is_dictionary = False,
           is_view = False, no_delay = False, no_ddl_lock = False, database = ''D'',
           table = ''t1'', cluster = []\<rparr>,
        EnterExecuteToTable
          \<lparr>kind = Drop, if_exists = True, temporary = False, is_dictionary = False,
           is_view = False, no_delay = False, no_ddl_lock = False, database = ''D'',
           table = ''t2'', cluster = []\<rparr>]"
  by (simp add: example_defs run_defs)

text \<open>
  C1, amended. For a Drop or a Detach of a database that must be emptied, the entries
  into the child handlers are, in this order, a prefix of: one entry into the dictionary
  handler per dictionary, made with \<^verbatim>\<open>if_exists = false\<close> (and not temporary,
  with the guard), then one entry into the table handler per table, made with a statement
  of the kind and the database of the operation, with \<^verbatim>\<open>if_exists = true\<close> and
  the \<^verbatim>\<open>no_delay\<close> of the database operation; when the run succeeds they are all
  of them. So no table is processed before every dictionary has been.
\<close>

theorem database_children_in_order:
  assumes "databases w d = Some x"
    and "shouldBeEmptyOnDetach x"
    and "k \<noteq> Truncate"
    and "executeToDatabase ctx qp d k ie nd w = (r, w')"
  shows "\<exists>m. filter is_enter (trace w')
        = filter is_enter (trace w)
          @ take m
              (map (\<lambda>n. EnterExecuteToDictionary d n k False False False)
                 (getDictionariesIterator x)
               @ map (\<lambda>n. EnterExecuteToTable
                     \<lparr>kind = k, if_exists = True, temporary = False, is_dictionary = False,
                      is_view = False, no_delay = nd, no_ddl_lock = False, database = d,
                      table = n, cluster = []\<rparr>)
                   (getTablesIterator x)) \<and>
     (\<not> isl r \<longrightarrow>
        m = length (getDictionariesIterator x) + length (getTablesIterator x))"
  using executeToDatabase_enters [OF assms]
  by (simp add: child_invocations_def)

theorem database_children_in_order_witness:
  "filter is_enter (trace (snd (executeToDatabase (example_context INITIAL_QUERY)
      (example_query Detach ''D'' []) ''D'' Detach False True (example_world ''Ordinary''))))
     = [EnterExecuteToDictionary ''D'' ''d1'' Detach False False False,
        EnterExecuteToTable
          \<lparr>kind = Detach, if_exists = True, temporary = False, is_dictionary = False,
           is_view = False, no_delay = True, no_ddl_lock = False, database = ''D'',
           table = ''t1'', cluster = []\<rparr>,
        EnterExecuteToTable
          \<lparr>kind = Detach, if_exists = True, temporary = False, is_dictionary = False,
           is_view = False, no_delay = True, no_ddl_lock = False, database = ''D'',
           table = ''t2'', cluster = []\<rparr>]"
proof -
  let ?run = "executeToDatabase (example_context INITIAL_QUERY)
      (example_query Detach ''D'' []) ''D'' Detach False True (example_world ''Ordinary'')"
  have a: "databases (example_world ''Ordinary'') ''D'' = Some (example_db ''Ordinary'')"
    "shouldBeEmptyOnDetach (example_db ''Ordinary'')" "Detach \<noteq> Truncate"
    "?run = (fst ?run, snd ?run)"
    by (simp_all add: example_defs)
  have ok: "\<not> isl (fst ?run)"
    by (simp add: example_defs run_defs)
  have it: "getDictionariesIterator (example_db ''Ordinary'') = [''d1'']"
    "getTablesIterator (example_db ''Ordinary'') = [''t1'', ''t2'']"
    "trace (example_world ''Ordinary'') = []"
    by (simp_all add: getDictionariesIterator_def getTablesIterator_def example_defs)
  from database_children_in_order [OF a] ok show ?thesis
    unfolding it by auto
qed

text \<open>
  C3. The run of DETACH DATABASE \<open>D\<close> on a Replicated database outside replay, with
  dictionary \<open>d1\<close> and tables \<open>t1\<close>, \<open>t2\<close>, where the access check of \<open>t2\<close> fails.
  The run fails with the error of \<open>t2\<close>; for the child \<open>t1\<close>, processed before it, the
  only call is a proposal to the log of the statement of the database itself (lines
  104-105 pass \<^verbatim>\<open>query_ptr\<close>), and \<open>t1\<close> is still a table of the database. The Drop
  branch keeps a teardown out of this redirect (line 134 asks for a table name in
  \<^verbatim>\<open>query_ptr\<close>); the Detach branch has no such test.
\<close>

theorem detach_database_leaves_processed_child_attached:
  "fst (execute (denying_context INITIAL_QUERY ''t2'') (example_query Detach ''D'' [])
      (example_world ''Replicated'')) = Inl PermissionDenied \<and>
   filter is_dispatch (trace (snd (execute (denying_context INITIAL_QUERY ''t2'')
      (example_query Detach ''D'' []) (example_world ''Replicated''))))
     = [Propose ''D'' (example_query Detach ''D'' [])] \<and>
   map_option (\<lambda>x. map fst (db_tables x)) (databases (snd (execute
      (denying_context INITIAL_QUERY ''t2'') (example_query Detach ''D'' [])
      (example_world ''Replicated''))) ''D'') = Some [''t1'', ''t2'']"
  by (simp add: denying_context_def example_defs run_defs)


text \<open>
  What a teardown leaves behind when a child fails. For a Drop or a Detach of a database
  that must be emptied, when the operation on a child fails after the children before it
  succeeded, the database operation fails at once with the error of that child, and
  nothing is rolled back. When the child is a dictionary: the dictionaries processed
  before it are gone from the registry, which holds exactly the failing one and those not
  yet processed, and the tables are untouched. When the child is a table: all
  dictionaries are gone; the failing table and the tables not yet processed are in the
  catalog as before; the tables processed before it are removed when the teardown is not
  redirected to the replicated log, and all still there when it is (the run above). In
  both cases the entry of the database stays and \<^verbatim>\<open>detachDatabase\<close> is not called.
\<close>

theorem teardown_stops_at_first_failing_child:
  assumes "databases w d = Some x"
    and "shouldBeEmptyOnDetach x"
    and "k \<noteq> Truncate"
    and "d \<noteq> []"
    and "granted ctx DROP_DATABASE d []"
  shows "(getDictionariesIterator x = ds @ dc # ds' \<and>
      dictionaries_loop ctx d k ds (teardown_start d w) = (None, u1) \<and>
      executeToDictionary ctx d dc k False False False u1 = (Inl e, u2) \<longrightarrow>
        executeToDatabase ctx qp d k ie nd w = (Inl e, emit (ReleaseDDLGuard d []) u2) \<and>
        databases u2 = (databases w)
          (d \<mapsto> x\<lparr>db_dictionaries := filter (\<lambda>n. n \<notin> set ds) (db_dictionaries x)\<rparr>) \<and>
        set (filter (\<lambda>n. n \<notin> set ds) (db_dictionaries x)) = set (dc # ds') \<and>
        filter is_detach_database (trace u2) = filter is_detach_database (trace w)) \<and>
     (dictionaries_loop ctx d k (getDictionariesIterator x) (teardown_start d w) = (None, v0) \<and>
      getTablesIterator x = ts @ tc # ts' \<and>
      tables_loop ctx qp (child_query d k nd) ts v0 = (None, v1) \<and>
      executeToTable ctx qp ((child_query d k nd)\<lparr>table := tc\<rparr>) v1 = (Inl e', v2) \<longrightarrow>
        executeToDatabase ctx qp d k ie nd w = (Inl e', emit (ReleaseDDLGuard d []) v2) \<and>
        (\<exists>x'. databases v2 = (databases w)(d \<mapsto> x') \<and>
           db_dictionaries x' = [] \<and>
           (\<forall>n \<in> set (tc # ts').
              map_of (db_tables x') n = map_of (db_tables x) n \<and> map_of (db_tables x) n \<noteq> None) \<and>
           (\<not> teardown_redirected ctx qp k x \<longrightarrow> (\<forall>n \<in> set ts. map_of (db_tables x') n = None)) \<and>
           (teardown_redirected ctx qp k x \<longrightarrow> db_tables x' = db_tables x)) \<and>
        filter is_detach_database (trace v2) = filter is_detach_database (trace w))"
proof (intro conjI impI; elim conjE)
  let ?w0 = "teardown_start d w"
  have start: "databases ?w0 d = Some x" "databases ?w0 = databases w"
    "filter is_detach_database (trace ?w0) = filter is_detach_database (trace w)"
    using assms(1) by (simp_all add: teardown_start_def)
  {
    assume it: "getDictionariesIterator x = ds @ dc # ds'"
      and pre: "dictionaries_loop ctx d k ds ?w0 = (None, u1)"
      and fail: "executeToDictionary ctx d dc k False False False u1 = (Inl e, u2)"
    have loop: "dictionaries_loop ctx d k (getDictionariesIterator x) ?w0 = (Some e, u2)"
      unfolding it by (rule dictionaries_loop_split [OF pre fail])
    then have "empty_database ctx qp d k nd x ?w0 = (Some e, u2)"
      by (simp add: empty_database_def)
    then show "executeToDatabase ctx qp d k ie nd w = (Inl e, emit (ReleaseDDLGuard d []) u2)"
      by (rule executeToDatabase_child_failure [OF assms(1,2,3,5)])
    have "databases u2 = databases u1"
      by (rule executeToDictionary_failure_unchanged(1) [OF fail])
    also have "\<dots> = (databases ?w0)
        (d \<mapsto> x\<lparr>db_dictionaries := filter (\<lambda>n. n \<notin> set ds) (db_dictionaries x)\<rparr>)"
      by (rule dictionaries_loop_done [OF pre assms(4,3) start(1)])
    finally show "databases u2 = (databases w)
        (d \<mapsto> x\<lparr>db_dictionaries := filter (\<lambda>n. n \<notin> set ds) (db_dictionaries x)\<rparr>)"
      by (simp add: start(2))
    from iterator_sets(1,2) [of x] show
      "set (filter (\<lambda>n. n \<notin> set ds) (db_dictionaries x)) = set (dc # ds')"
      unfolding it by auto
    from dictionaries_loop_no_detach_database [of ctx d k "getDictionariesIterator x" ?w0]
    show "filter is_detach_database (trace u2) = filter is_detach_database (trace w)"
      by (simp add: loop start(3))
  }
  {
    assume dicts: "dictionaries_loop ctx d k (getDictionariesIterator x) ?w0 = (None, v0)"
      and it: "getTablesIterator x = ts @ tc # ts'"
      and pre: "tables_loop ctx qp (child_query d k nd) ts v0 = (None, v1)"
      and fail: "executeToTable ctx qp ((child_query d k nd)\<lparr>table := tc\<rparr>) v1 = (Inl e', v2)"
    let ?xd = "x\<lparr>db_dictionaries := []\<rparr>"
    have "filter (\<lambda>n. n \<notin> set (getDictionariesIterator x)) (db_dictionaries x) = []"
      by (simp add: iterator_sets(1))
    with dictionaries_loop_done [OF dicts assms(4,3) start(1)]
    have v0: "databases v0 = (databases w)(d \<mapsto> ?xd)"
      by (simp add: start(2))
    then have v0d: "databases v0 d = Some ?xd" by simp
    then have snap: "tables_snapshot v0 d = getTablesIterator x"
      by (simp add: tables_snapshot_def getTablesIterator_def)
    have loop: "tables_loop ctx qp (child_query d k nd) (getTablesIterator x) v0 = (Some e', v2)"
      unfolding it by (rule tables_loop_split [OF pre fail])
    then have "empty_database ctx qp d k nd x ?w0 = (Some e', v2)"
      by (simp add: empty_database_def dicts snap)
    then show "executeToDatabase ctx qp d k ie nd w = (Inl e', emit (ReleaseDDLGuard d []) v2)"
      by (rule executeToDatabase_child_failure [OF assms(1,2,3,5)])
    have cq: "\<not> temporary (child_query d k nd)" "database (child_query d k nd) = d"
      "kind (child_query d k nd) \<noteq> Truncate" "kind (child_query d k nd) = k"
      using assms(3) by (simp_all add: child_query_def)
    from tables_loop_done [OF pre cq(1,2) assms(4) cq(3) v0d]
    obtain x1 where x1: "databases v1 = (databases v0)(d \<mapsto> x1)"
      "db_dictionaries x1 = db_dictionaries ?xd"
      "\<forall>n. n \<notin> set ts \<longrightarrow> map_of (db_tables x1) n = map_of (db_tables ?xd) n"
      "\<not> teardown_redirected ctx qp k ?xd \<longrightarrow> (\<forall>n \<in> set ts. map_of (db_tables x1) n = None)"
      "teardown_redirected ctx qp k ?xd \<longrightarrow> db_tables x1 = db_tables ?xd"
      unfolding cq(4) by blast
    have red: "teardown_redirected ctx qp k ?xd = teardown_redirected ctx qp k x"
      by (rule teardown_redirected_engine) simp
    let ?q = "(child_query d k nd)\<lparr>table := tc\<rparr>"
    have q: "\<not> temporary ?q" "database ?q = d" "kind ?q \<noteq> Truncate"
      using assms(3) by (simp_all add: child_query_def)
    have v1d: "databases v1 d = Some x1" using x1(1) by simp
    from executeToTable_child [OF fail q(1,2) assms(4) q(3) v1d]
    have "databases v2 = (databases v1)(d \<mapsto> x1)" by auto
    then have v2: "databases v2 = (databases w)(d \<mapsto> x1)"
      using x1(1) v0 by simp
    have present: "map_of (db_tables x1) n = map_of (db_tables x) n \<and> map_of (db_tables x) n \<noteq> None"
      if "n \<in> set (tc # ts')" for n
    proof -
      from that iterator_sets(4) [of x] have "n \<notin> set ts"
        unfolding it by auto
      moreover from that iterator_sets(3) [of x] have "n \<in> fst ` set (db_tables x)"
        unfolding it by auto
      ultimately show ?thesis
        using x1(3) by (simp add: map_of_eq_None_iff)
    qed
    show "\<exists>x'. databases v2 = (databases w)(d \<mapsto> x') \<and>
           db_dictionaries x' = [] \<and>
           (\<forall>n \<in> set (tc # ts').
              map_of (db_tables x') n = map_of (db_tables x) n \<and> map_of (db_tables x) n \<noteq> None) \<and>
           (\<not> teardown_redirected ctx qp k x \<longrightarrow> (\<forall>n \<in> set ts. map_of (db_tables x') n = None)) \<and>
           (teardown_redirected ctx qp k x \<longrightarrow> db_tables x' = db_tables x)"
      using v2 x1(2,4,5) present unfolding red
      by (intro exI [of _ x1]) simp
    from tables_loop_no_detach_database [of ctx qp "child_query d k nd" "getTablesIterator x" v0]
      dictionaries_loop_no_detach_database [of ctx d k "getDictionariesIterator x" ?w0]
    show "filter is_detach_database (trace v2) = filter is_detach_database (trace w)"
      by (simp add: loop dicts start(3))
  }
qed


theorem teardown_stops_at_first_failing_child_witness:
  "fst (executeToDatabase (denying_context INITIAL_QUERY ''d1'') (example_query Drop ''D'' [])
      ''D'' Drop False False (example_world ''Ordinary'')) = Inl PermissionDenied \<and>
   fst (executeToDatabase (example_context INITIAL_QUERY) (example_query Drop ''D'' [])
      ''D'' Drop False False (example_world ''Ordinary'')) = Inl PreconditionViolation"
proof -
  let ?w = "example_world ''Ordinary''"
  let ?x = "example_db ''Ordinary''"
  let ?qp = "example_query Drop ''D'' []"
  let ?deny = "denying_context INITIAL_QUERY ''d1''"
  let ?ctx = "example_context INITIAL_QUERY"
  have a: "databases ?w ''D'' = Some ?x" "shouldBeEmptyOnDetach ?x" "Drop \<noteq> Truncate"
    "''D'' \<noteq> []" "granted ?deny DROP_DATABASE ''D'' []" "granted ?ctx DROP_DATABASE ''D'' []"
    by (simp_all add: denying_context_def example_defs)
  let ?u2 = "snd (executeToDictionary ?deny ''D'' ''d1'' Drop False False False
      (teardown_start ''D'' ?w))"
  have d: "getDictionariesIterator ?x = [] @ ''d1'' # [] \<and>
      dictionaries_loop ?deny ''D'' Drop [] (teardown_start ''D'' ?w)
        = (None, teardown_start ''D'' ?w) \<and>
      executeToDictionary ?deny ''D'' ''d1'' Drop False False False (teardown_start ''D'' ?w)
        = (Inl PermissionDenied, ?u2)"
    by (simp add: denying_context_def teardown_start_def example_defs run_defs)
  let ?v0 = "snd (dictionaries_loop ?ctx ''D'' Drop [''d1''] (teardown_start ''D'' ?w))"
  let ?v1 = "snd (tables_loop ?ctx ?qp (child_query ''D'' Drop False) [''t1''] ?v0)"
  let ?v2 = "snd (executeToTable ?ctx ?qp ((child_query ''D'' Drop False)\<lparr>table := ''t2''\<rparr>) ?v1)"
  have v0: "dictionaries_loop ?ctx ''D'' Drop (getDictionariesIterator ?x) (teardown_start ''D'' ?w)
      = (None, ?v0)"
    by (simp add: teardown_start_def example_defs run_defs)
  have t: "dictionaries_loop ?ctx ''D'' Drop (getDictionariesIterator ?x) (teardown_start ''D'' ?w)
        = (None, ?v0) \<and>
      getTablesIterator ?x = [''t1''] @ ''t2'' # [] \<and>
      tables_loop ?ctx ?qp (child_query ''D'' Drop False) [''t1''] ?v0 = (None, ?v1) \<and>
      executeToTable ?ctx ?qp ((child_query ''D'' Drop False)\<lparr>table := ''t2''\<rparr>) ?v1
        = (Inl PreconditionViolation, ?v2)"
    by (simp add: teardown_start_def example_defs run_defs)
  from teardown_stops_at_first_failing_child [OF a(1,2,3,4,5), THEN conjunct1, rule_format, OF d]
  have 1: "executeToDatabase ?deny ?qp ''D'' Drop False False ?w
      = (Inl PermissionDenied, emit (ReleaseDDLGuard ''D'' []) ?u2)"
    by (rule conjunct1)
  from teardown_stops_at_first_failing_child [OF a(1,2,3,4,6), THEN conjunct2, rule_format, OF t]
  have 2: "executeToDatabase ?ctx ?qp ''D'' Drop False False ?w
      = (Inl PreconditionViolation, emit (ReleaseDDLGuard ''D'' []) ?v2)"
    by (rule conjunct1)
  from 1 2 show ?thesis by simp
qed


end
